theory Spec2Isabelle
  imports Complex_Main "HOL-Library.Product_Order" "HOL-Library.Log_Nat"
begin

section \<open>Numbers\<close>

text \<open>
  \<^verbatim>\<open>NUMBER = TypeVar('NUMBER', int, float, Decimal)\<close> is the type of the values that are
  converted.

  \<^item> A Python \<^verbatim>\<open>int\<close> is an \<^typ>\<open>int\<close>.
  \<^item> A finite \<^verbatim>\<open>Decimal\<close> is the rational number it denotes. Every arithmetic operation on
    Decimals returns the exact result rounded to the precision of the decimal context, 28
    significant digits, ties to even (\<open>round_context\<close> below). Numerically equal Decimals
    are identified, so \<^verbatim>\<open>Decimal('1E+3')\<close> and \<^verbatim>\<open>Decimal('1000')\<close> are one value.
  \<^item> A \<^verbatim>\<open>float\<close> is kept as the expression that computes it: the model says which float
    operations the code performs and when they raise, not which binary fraction results.

  Following the field annotations of \<^verbatim>\<open>unit.py\<close> (\<^verbatim>\<open>ratio: Decimal\<close>, \<^verbatim>\<open>offset: Decimal\<close>,
  \<^verbatim>\<open>scale: Decimal\<close>), ratios, offsets, scales and the magnitude of a quantity are Decimals.
\<close>

datatype float_expr =
    Float_value rat
  | Float_of_int int
  | Float_of_Decimal rat
  | Int_truediv int int
  | Float_add float_expr float_expr
  | Float_sub float_expr float_expr
  | Float_mul float_expr float_expr
  | Float_div float_expr float_expr

datatype number = IntN int | DecN rat | FloatN float_expr

section \<open>Units\<close>

text \<open>
  Unit objects are frozen dataclasses: once \<^verbatim>\<open>__new__\<close> has set the fields they never change.
  An object is therefore modelled as a value that carries its identity (\<open>addr\<close>, what
  \<^verbatim>\<open>id(...)\<close> returns and what \<^verbatim>\<open>is\<close> compares) together with its fields; a field that refers
  to another unit holds that unit.

  \<open>explicit_name\<close> is \<open>Some n\<close> when the object has a name of its own and \<open>None\<close> when the
  class default applies. \<^verbatim>\<open>PrimaryUnit.__new__\<close> sets the name it is given. For the other
  classes \<^verbatim>\<open>name\<close> is an expression of the other fields, which \<^verbatim>\<open>object.__setattr__\<close> refuses to
  overwrite, so their constructors never produce an object with a name of its own; such an
  object can only come from code outside \<^verbatim>\<open>unit.py\<close>. The last field of a \<open>ComplexUnit\<close> is
  the scale, when \<^verbatim>\<open>__new__\<close> has set one. The type parameter \<open>'d\<close> is the type of dimensions.
\<close>

datatype 'd Unit =
    PrimaryUnit (addr: nat) (explicit_name: "string option") 'd
  | DerivedUnit (addr: nat) (explicit_name: "string option") "'d Unit" rat
  | OffsetDerivedUnit (addr: nat) (explicit_name: "string option") "'d Unit" rat rat
  | DiffDerivedUnit (addr: nat) (explicit_name: "string option") "'d Unit"
  | ComplexUnit (addr: nat) (explicit_name: "string option")
      "('d Unit \<times> int) list" "rat option"

text \<open>
  \<^verbatim>\<open>Quantity\<close> (\<^verbatim>\<open>hg_oap.units.quantity\<close>) pairs a magnitude with a unit; the code reads its
  attributes \<^verbatim>\<open>value\<close> and \<^verbatim>\<open>unit\<close>.
\<close>

datatype 'd Quantity = Quantity (qvalue: rat) (qunit: "'d Unit")

text \<open>
  The exceptions. \<open>ValueError_cannot_convert self to q\<close> is the \<^verbatim>\<open>ValueError\<close> of \<^verbatim>\<open>convert\<close>,
  whose message names \<^verbatim>\<open>self\<close>, \<^verbatim>\<open>to\<close> and the dimension quotient \<open>q\<close>. \<open>Overflow\<close>,
  \<open>DivisionByZero\<close> and \<open>InvalidOperation\<close> are the exceptions of \<^verbatim>\<open>decimal\<close>;
  \<open>OverflowError\<close> and \<open>ZeroDivisionError\<close> those of \<^verbatim>\<open>int\<close> and \<^verbatim>\<open>float\<close>.
  \<open>NotModelled_infinity\<close> stands for a Decimal that is not finite.
\<close>

datatype 'd error =
    ValueError_cannot_convert "'d Unit" "'d Unit" 'd
  | ValueError_cannot_multiply
  | ValueError_cannot_divide
  | ValueError_cannot_create_diff
  | AssertionError
  | TypeError
  | AttributeError
  | RecursionError
  | DivisionByZero
  | InvalidOperation
  | Overflow
  | ZeroDivisionError
  | OverflowError
  | NotModelled_infinity

text \<open>Sequencing of computations that may raise: the first error is the result.\<close>

fun bind_err :: "'e + 'a \<Rightarrow> ('a \<Rightarrow> 'e + 'b) \<Rightarrow> 'e + 'b" where
  "bind_err (Inl e) f = Inl e"
| "bind_err (Inr x) f = f x"

text \<open>The results of a generator, in order, up to the first one that raises.\<close>

fun sequence_err :: "('e + 'a) list \<Rightarrow> 'e + 'a list" where
  "sequence_err [] = Inr []"
| "sequence_err (Inl e # rs) = Inl e"
| "sequence_err (Inr x # rs) =
     (case sequence_err rs of Inl e \<Rightarrow> Inl e | Inr xs \<Rightarrow> Inr (x # xs))"

text \<open>A left fold with an operation that may raise.\<close>

fun foldl_err :: "('a \<Rightarrow> 'b \<Rightarrow> 'e + 'a) \<Rightarrow> 'a \<Rightarrow> 'b list \<Rightarrow> 'e + 'a" where
  "foldl_err f a [] = Inr a"
| "foldl_err f a (x # xs) = (case f a x of Inl e \<Rightarrow> Inl e | Inr a' \<Rightarrow> foldl_err f a' xs)"

subsection \<open>Decimal arithmetic\<close>

text \<open>
  The default context of \<^verbatim>\<open>decimal\<close>: precision 28, rounding \<^verbatim>\<open>ROUND_HALF_EVEN\<close>, exponents
  between \<^verbatim>\<open>Emin\<close> = -999999 and \<^verbatim>\<open>Emax\<close> = 999999, and the trap for \<^verbatim>\<open>Overflow\<close> enabled.
  \<open>adjusted x\<close> is the exponent of the leading digit of a non-zero \<open>x\<close>. \<open>round_prec\<close>
  rounds to 28 significant digits, or to a multiple of \<open>10 ^ Etiny\<close> when the result is
  subnormal; it has no result when the rounded number exceeds the largest exponent, and
  \<open>round_context\<close> raises \<^verbatim>\<open>Overflow\<close> then.
\<close>

definition round_half_even :: "rat \<Rightarrow> int" where
  "round_half_even x =
     (let f = \<lfloor>x\<rfloor>; d = x - of_int f
      in if d < 1 / 2 then f else if 1 / 2 < d then f + 1 else if even f then f else f + 1)"

definition adjusted :: "rat \<Rightarrow> int" where
  "adjusted x =
     (let (n, d) = quotient_of \<bar>x\<bar>;
          e = int (floorlog 10 (nat n)) - int (floorlog 10 (nat d))
      in if 10 powi e \<le> \<bar>x\<bar> then e else e - 1)"

definition round_prec :: "rat \<Rightarrow> rat option" where
  "round_prec x =
     (if x = 0 then Some 0
      else let q = 10 powi (max (adjusted x - 27) (- 1000026));
               y = of_int (round_half_even (x / q)) * q
           in if y \<noteq> 0 \<and> 999999 < adjusted y then None else Some y)"

definition round_context :: "rat \<Rightarrow> 'd error + rat" where
  "round_context x = (case round_prec x of None \<Rightarrow> Inl Overflow | Some y \<Rightarrow> Inr y)"

definition dec_add :: "rat \<Rightarrow> rat \<Rightarrow> 'd error + rat" where
  "dec_add x y = round_context (x + y)"

definition dec_sub :: "rat \<Rightarrow> rat \<Rightarrow> 'd error + rat" where
  "dec_sub x y = round_context (x - y)"

definition dec_mul :: "rat \<Rightarrow> rat \<Rightarrow> 'd error + rat" where
  "dec_mul x y = round_context (x * y)"

text \<open>
  \<^verbatim>\<open>x / Decimal(0)\<close> raises \<^verbatim>\<open>DivisionByZero\<close>, \<^verbatim>\<open>Decimal(0) / Decimal(0)\<close> raises
  \<^verbatim>\<open>InvalidOperation\<close>.
\<close>

definition dec_div :: "rat \<Rightarrow> rat \<Rightarrow> 'd error + rat" where
  "dec_div x y =
     (if y = 0 then (if x = 0 then Inl InvalidOperation else Inl DivisionByZero)
      else round_context (x / y))"

text \<open>
  \<^verbatim>\<open>pow(x, m)\<close> for a Decimal \<open>x\<close> and an \<^verbatim>\<open>int\<close> \<open>m\<close>: \<^verbatim>\<open>Decimal(0) ** 0\<close> raises
  \<^verbatim>\<open>InvalidOperation\<close>; \<^verbatim>\<open>Decimal(0) ** m\<close> with a negative \<open>m\<close> is \<^verbatim>\<open>Decimal('Infinity')\<close>;
  otherwise the power is rounded like every other result.
\<close>

definition dec_pow :: "rat \<Rightarrow> int \<Rightarrow> 'd error + rat" where
  "dec_pow x m =
     (if x = 0 \<and> m = 0 then Inl InvalidOperation
      else if x = 0 \<and> m < 0 then Inl NotModelled_infinity
      else round_context (x powi m))"

subsection \<open>Dimensions\<close>

text \<open>
  Modelled from the spec: the class \<^verbatim>\<open>Dimension\<close> (\<^verbatim>\<open>hg_oap.units.dimension\<close>) is not part
  of \<^verbatim>\<open>unit.py\<close>. The specification describes it as "an algebraic value type supporting
  multiply, divide, power, and equality/hash". It is taken here to be any abelian group,
  written additively as exponent vectors are: \<^verbatim>\<open>d1 * d2\<close> is \<open>d1 + d2\<close>, \<^verbatim>\<open>d1 / d2\<close> is
  \<open>d1 - d2\<close> and \<^verbatim>\<open>d ** n\<close> is the \<open>n\<close>-fold sum. Dimension objects are interned by their
  own module, so \<^verbatim>\<open>d1 is d2\<close> is equality of dimensions.
\<close>

definition dim_mul :: "'d::ab_group_add \<Rightarrow> 'd \<Rightarrow> 'd" where
  "dim_mul d1 d2 = d1 + d2"

definition dim_div :: "'d::ab_group_add \<Rightarrow> 'd \<Rightarrow> 'd" where
  "dim_div d1 d2 = d1 - d2"

definition dim_pow :: "'d::ab_group_add \<Rightarrow> int \<Rightarrow> 'd" where
  "dim_pow d n = (if 0 \<le> n then ((+) d ^^ nat n) 0 else - (((+) d ^^ nat (- n)) 0))"

text \<open>
  \<^verbatim>\<open>reduce(f, gen)\<close> without an initial value, over a generator: \<^verbatim>\<open>TypeError\<close> when the
  generator yields nothing; otherwise the elements are computed one at a time, each one
  just before \<open>f\<close> combines it with the accumulated value. The list holds the outcome of
  the computation of every element.
\<close>

fun reduce_from :: "('a \<Rightarrow> 'a \<Rightarrow> 'd error + 'a) \<Rightarrow> 'a \<Rightarrow> ('d error + 'a) list \<Rightarrow> 'd error + 'a" where
  "reduce_from f a [] = Inr a"
| "reduce_from f a (Inl e # xs) = Inl e"
| "reduce_from f a (Inr x # xs) =
     (case f a x of Inl e \<Rightarrow> Inl e | Inr a' \<Rightarrow> reduce_from f a' xs)"

fun reduce :: "('a \<Rightarrow> 'a \<Rightarrow> 'd error + 'a) \<Rightarrow> ('d error + 'a) list \<Rightarrow> 'd error + 'a" where
  "reduce f [] = Inl TypeError"
| "reduce f (Inl e # xs) = Inl e"
| "reduce f (Inr x # xs) = reduce_from f x xs"

subsection \<open>Computed fields\<close>

text \<open>
  \<^verbatim>\<open>dimension\<close>: set by \<^verbatim>\<open>PrimaryUnit.__new__\<close>; \<^verbatim>\<open>lambda s: s.primary_unit.dimension\<close> for
  \<^verbatim>\<open>DerivedUnit\<close> and its subclasses, where the \<^verbatim>\<open>primary_unit\<close> of a \<^verbatim>\<open>DiffDerivedUnit\<close> is
  \<^verbatim>\<open>s.offset_unit.primary_unit\<close>; for \<^verbatim>\<open>ComplexUnit\<close>
  \<^verbatim>\<open>reduce(operator.mul, (u.dimension**m for u, m in s.components))\<close>.
\<close>

fun dimension :: "'d::ab_group_add Unit \<Rightarrow> 'd error + 'd" where
  "dimension (PrimaryUnit a nm d) = Inr d"
| "dimension (DerivedUnit a nm pu r) = dimension pu"
| "dimension (OffsetDerivedUnit a nm pu r off) = dimension pu"
| "dimension (DiffDerivedUnit a nm (OffsetDerivedUnit b nm' pu r off)) = dimension pu"
| "dimension (DiffDerivedUnit a nm ou) = Inl AttributeError"
| "dimension (ComplexUnit a nm comps sc) =
     reduce (\<lambda>x y. Inr (dim_mul x y))
       (map (\<lambda>(u, m). case dimension u of Inl e \<Rightarrow> Inl e | Inr d \<Rightarrow> Inr (dim_pow d m)) comps)"


text \<open>
  \<^verbatim>\<open>ratio\<close>: \<^verbatim>\<open>Decimal(1)\<close> for a \<^verbatim>\<open>PrimaryUnit\<close>; the stored field of a \<^verbatim>\<open>DerivedUnit\<close> and an
  \<^verbatim>\<open>OffsetDerivedUnit\<close>; \<^verbatim>\<open>lambda s: s.offset_unit.ratio\<close> for a \<^verbatim>\<open>DiffDerivedUnit\<close>; for a
  \<^verbatim>\<open>ComplexUnit\<close>
  \<^verbatim>\<open>reduce(operator.mul, (pow(u.ratio, m) for u, m in s.components)) * s.scale\<close>.
\<close>

fun ratio :: "'d Unit \<Rightarrow> 'd error + rat" where
  "ratio (PrimaryUnit a nm d) = Inr 1"
| "ratio (DerivedUnit a nm pu r) = Inr r"
| "ratio (OffsetDerivedUnit a nm pu r off) = Inr r"
| "ratio (DiffDerivedUnit a nm (OffsetDerivedUnit b nm' pu r off)) = Inr r"
| "ratio (DiffDerivedUnit a nm ou) = Inl AttributeError"
| "ratio (ComplexUnit a nm comps sc) =
     bind_err
       (reduce dec_mul
          (map (\<lambda>(u, m). case ratio u of Inl e \<Rightarrow> Inl e | Inr r \<Rightarrow> dec_pow r m) comps))
       (\<lambda>p. dec_mul p (case sc of None \<Rightarrow> 1 | Some x \<Rightarrow> x))"

fun primary_unit :: "'d Unit \<Rightarrow> 'd error + 'd Unit" where
  "primary_unit (DerivedUnit a nm pu r) = Inr pu"
| "primary_unit (OffsetDerivedUnit a nm pu r off) = Inr pu"
| "primary_unit (DiffDerivedUnit a nm (OffsetDerivedUnit b nm' pu r off)) = Inr pu"
| "primary_unit u = Inl AttributeError"

fun offset :: "'d Unit \<Rightarrow> 'd error + rat" where
  "offset (OffsetDerivedUnit a nm pu r off) = Inr off"
| "offset u = Inl AttributeError"

fun components :: "'d Unit \<Rightarrow> ('d Unit \<times> int) list" where
  "components (ComplexUnit a nm comps sc) = comps"
| "components u = []"

text \<open>
  The class variable \<^verbatim>\<open>_is_multiplicative\<close>: \<^verbatim>\<open>True\<close> in \<^verbatim>\<open>Unit\<close>, \<^verbatim>\<open>False\<close> in
  \<^verbatim>\<open>OffsetDerivedUnit\<close>, \<^verbatim>\<open>True\<close> again in \<^verbatim>\<open>DiffDerivedUnit\<close>.
\<close>

fun is_multiplicative :: "'d Unit \<Rightarrow> bool" where
  "is_multiplicative (OffsetDerivedUnit a nm pu r off) = False"
| "is_multiplicative u = True"

text \<open>
  \<^verbatim>\<open>_to_components(self, power=1)\<close>: \<^verbatim>\<open>ComplexUnit\<close> overrides the default of \<^verbatim>\<open>Unit\<close>.
  \<^verbatim>\<open>type(self).name.__overriden__(self)\<close> (from the absent \<^verbatim>\<open>ExprClass\<close>) tells whether the
  instance has a name of its own.
\<close>

fun to_components :: "'d Unit \<Rightarrow> int \<Rightarrow> ('d Unit \<times> int) list" where
  "to_components (ComplexUnit a nm comps sc) pwr =
     (if nm \<noteq> None \<or> (case sc of None \<Rightarrow> 1 | Some x \<Rightarrow> x) \<noteq> (1::rat)
      then [(ComplexUnit a nm comps sc, pwr)]
      else if pwr = 1 then comps else map (\<lambda>(u, p). (u, p * pwr)) comps)"
| "to_components u pwr = [(u, pwr)]"

subsection \<open>Names\<close>

text \<open>
  \<^verbatim>\<open>name\<close>: the name of its own when the object has one. Otherwise \<^verbatim>\<open>None\<close> for a
  \<^verbatim>\<open>PrimaryUnit\<close>; \<^verbatim>\<open>f"{s.ratio}*{s.primary_unit.name}"\<close> for a \<^verbatim>\<open>DerivedUnit\<close> and an
  \<^verbatim>\<open>OffsetDerivedUnit\<close>; \<^verbatim>\<open>f"{s.offset_unit.name}_diff"\<close> for a \<^verbatim>\<open>DiffDerivedUnit\<close> (an f-string
  prints \<^verbatim>\<open>None\<close> as text); \<^verbatim>\<open>s._build_name()\<close> for a \<^verbatim>\<open>ComplexUnit\<close>, which formats each
  component of positive exponent and then each component of negative exponent with
  \<^verbatim>\<open>str\<close>. \<^verbatim>\<open>Unit.__str__\<close> returns \<^verbatim>\<open>self.name\<close>, and \<^verbatim>\<open>str\<close> raises \<^verbatim>\<open>TypeError\<close> when that is
  \<^verbatim>\<open>None\<close>.

  What the code depends on is whether the evaluation of \<^verbatim>\<open>name\<close> raises and whether it
  yields a string: \<open>has_name u\<close> is \<open>Inr True\<close> when \<^verbatim>\<open>u.name\<close> is a string and \<open>Inr False\<close>
  when it is \<^verbatim>\<open>None\<close>.
\<close>

fun str_of :: "'d error + bool \<Rightarrow> 'd error + unit" where
  "str_of (Inl e) = Inl e"
| "str_of (Inr b) = (if b then Inr () else Inl TypeError)"

fun has_name :: "'d Unit \<Rightarrow> 'd error + bool" where
  "has_name (PrimaryUnit a nm d) = Inr (nm \<noteq> None)"
| "has_name (DerivedUnit a nm pu r) =
     (if nm \<noteq> None then Inr True else bind_err (has_name pu) (\<lambda>b. Inr True))"
| "has_name (OffsetDerivedUnit a nm pu r off) =
     (if nm \<noteq> None then Inr True else bind_err (has_name pu) (\<lambda>b. Inr True))"
| "has_name (DiffDerivedUnit a nm ou) =
     (if nm \<noteq> None then Inr True else bind_err (has_name ou) (\<lambda>b. Inr True))"
| "has_name (ComplexUnit a nm comps sc) =
     (if nm \<noteq> None then Inr True
      else bind_err
             (sequence_err
                (map (\<lambda>(d, p). str_of (has_name d))
                   (filter (\<lambda>(d, p). 0 < p) comps @ filter (\<lambda>(d, p). p < 0) comps)))
             (\<lambda>xs. Inr True))"

definition str_unit :: "'d Unit \<Rightarrow> 'd error + unit" where
  "str_unit u = str_of (has_name u)"

subsection \<open>Unit objects as dictionary keys\<close>

text \<open>
  Every class of \<^verbatim>\<open>unit.py\<close> is a \<^verbatim>\<open>@dataclass(frozen=True, ...)\<close> with the default \<^verbatim>\<open>eq=True\<close>.
  The decorator therefore gives each class an \<^verbatim>\<open>__eq__\<close> that compares the tuples of the
  fields of two objects of the same class, and gives each class that does not define
  \<^verbatim>\<open>__hash__\<close> in its own body a \<^verbatim>\<open>__hash__\<close> that hashes the tuple of its fields. Only \<^verbatim>\<open>Unit\<close>
  defines \<^verbatim>\<open>__hash__\<close> (as \<^verbatim>\<open>id(self)\<close>), so the five concrete classes hash and compare by
  their fields. The fields are, in order: \<^verbatim>\<open>name\<close>, \<^verbatim>\<open>dimension\<close>, then \<^verbatim>\<open>ratio\<close> for a
  \<^verbatim>\<open>PrimaryUnit\<close>; \<^verbatim>\<open>primary_unit\<close>, \<^verbatim>\<open>ratio\<close> for a \<^verbatim>\<open>DerivedUnit\<close>, followed by \<^verbatim>\<open>offset\<close>,
  \<^verbatim>\<open>diff\<close> for an \<^verbatim>\<open>OffsetDerivedUnit\<close> and by \<^verbatim>\<open>offset_unit\<close> for a \<^verbatim>\<open>DiffDerivedUnit\<close>;
  \<^verbatim>\<open>components\<close>, \<^verbatim>\<open>scale\<close>, \<^verbatim>\<open>ratio\<close> for a \<^verbatim>\<open>ComplexUnit\<close>. \<^verbatim>\<open>diff\<close> is declared with
  \<^verbatim>\<open>hash=False\<close>: it is compared but not hashed.

  \<open>hash_unit u\<close> is what \<^verbatim>\<open>hash(u)\<close> raises, if anything: the fields that are expressions
  are evaluated, in order, and then the values are hashed, in order, the units among
  them in the same way.
\<close>

fun hash_unit :: "'d::ab_group_add Unit \<Rightarrow> 'd error + unit" where
  "hash_unit (PrimaryUnit a nm d) = Inr ()"
| "hash_unit (DerivedUnit a nm pu r) =
     bind_err (has_name (DerivedUnit a nm pu r)) (\<lambda>n.
     bind_err (dimension pu) (\<lambda>d. hash_unit pu))"
| "hash_unit (OffsetDerivedUnit a nm pu r off) =
     bind_err (has_name (OffsetDerivedUnit a nm pu r off)) (\<lambda>n.
     bind_err (dimension pu) (\<lambda>d. hash_unit pu))"
| "hash_unit (DiffDerivedUnit a nm (OffsetDerivedUnit b nm' pu r off)) =
     bind_err (has_name (DiffDerivedUnit a nm (OffsetDerivedUnit b nm' pu r off))) (\<lambda>n.
     bind_err (dimension pu) (\<lambda>d.
     bind_err (hash_unit pu) (\<lambda>h. hash_unit (OffsetDerivedUnit b nm' pu r off))))"
| "hash_unit (DiffDerivedUnit a nm ou) =
     bind_err (has_name (DiffDerivedUnit a nm ou)) (\<lambda>n. Inl AttributeError)"
| "hash_unit (ComplexUnit a nm comps sc) =
     bind_err (has_name (ComplexUnit a nm comps sc)) (\<lambda>n.
     bind_err (dimension (ComplexUnit a nm comps sc)) (\<lambda>d.
     bind_err (ratio (ComplexUnit a nm comps sc)) (\<lambda>r.
     bind_err (sequence_err (map (\<lambda>(u, p). hash_unit u) comps)) (\<lambda>hs. Inr ()))))"

text \<open>
  The fields of a unit without its identity: two units have equal hashed fields exactly
  when they have the same \<open>canon\<close> (hash collisions apart). The name that a unit without a
  name of its own computes is determined by its other fields, so it need not be part of
  \<open>canon\<close>; a scale that was never set is the default \<^verbatim>\<open>Decimal(1)\<close>.
\<close>

fun canon :: "'d Unit \<Rightarrow> 'd Unit" where
  "canon (PrimaryUnit a nm d) = PrimaryUnit 0 nm d"
| "canon (DerivedUnit a nm pu r) = DerivedUnit 0 nm (canon pu) r"
| "canon (OffsetDerivedUnit a nm pu r off) = OffsetDerivedUnit 0 nm (canon pu) r off"
| "canon (DiffDerivedUnit a nm ou) = DiffDerivedUnit 0 nm (canon ou)"
| "canon (ComplexUnit a nm comps sc) =
     ComplexUnit 0 nm (map (\<lambda>(u, p). (canon u, p)) comps)
       (Some (case sc of None \<Rightarrow> 1 | Some x \<Rightarrow> x))"

text \<open>
  \<^verbatim>\<open>k' == k\<close> for two objects with equal hashed fields. The field tuples are compared
  element by element, and two elements that are the same object are equal without a call
  of \<^verbatim>\<open>__eq__\<close>. The only field that is not hashed is \<^verbatim>\<open>diff\<close>: for two distinct
  \<^verbatim>\<open>OffsetDerivedUnit\<close> objects the \<^verbatim>\<open>diff\<close> units are distinct objects, whose comparison
  compares their \<^verbatim>\<open>offset_unit\<close> fields, that is the two offset units again: the comparison
  does not end and raises \<^verbatim>\<open>RecursionError\<close>. \<open>eq_raises k' k\<close> tells whether the comparison
  reaches such a pair; when it does not, the two objects are equal.
\<close>

fun eq_raises :: "'d Unit \<Rightarrow> 'd Unit \<Rightarrow> bool"
  and eq_raises_components :: "('d Unit \<times> int) list \<Rightarrow> ('d Unit \<times> int) list \<Rightarrow> bool" where
  "eq_raises (PrimaryUnit a nm d) k = False"
| "eq_raises (DerivedUnit a nm pu r) k =
     (case k of DerivedUnit b nm' pu' r' \<Rightarrow> a \<noteq> b \<and> eq_raises pu pu' | _ \<Rightarrow> False)"
| "eq_raises (OffsetDerivedUnit a nm pu r off) k =
     (case k of OffsetDerivedUnit b nm' pu' r' off' \<Rightarrow> a \<noteq> b | _ \<Rightarrow> False)"
| "eq_raises (DiffDerivedUnit a nm ou) k =
     (case k of DiffDerivedUnit b nm' ou' \<Rightarrow> a \<noteq> b \<and> eq_raises ou ou' | _ \<Rightarrow> False)"
| "eq_raises (ComplexUnit a nm comps sc) k =
     (case k of ComplexUnit b nm' comps' sc' \<Rightarrow> a \<noteq> b \<and> eq_raises_components comps comps'
      | _ \<Rightarrow> False)"
| "eq_raises_components [] cs = False"
| "eq_raises_components ((u, p) # cs) [] = False"
| "eq_raises_components ((u, p) # cs) ((u', p') # cs') =
     (eq_raises u u' \<or> eq_raises_components cs cs')"

text \<open>
  Whether the key \<open>k'\<close> of a dictionary is the key \<open>k\<close> that is looked up: a dictionary
  compares the hashes first, and calls \<^verbatim>\<open>==\<close> only on two distinct objects with the same
  hash. (\<open>eq_raises\<close> is false on one and the same object.)
\<close>

definition same_key :: "'d Unit \<Rightarrow> 'd Unit \<Rightarrow> 'd error + bool" where
  "same_key k' k =
     (if canon k' \<noteq> canon k then Inr False
      else if eq_raises k' k then Inl RecursionError
      else Inr True)"

section \<open>The unit system\<close>

text \<open>
  \<^verbatim>\<open>UnitSystem.instance()\<close> holds the three interning tables and the registered conversion
  factors; dictionaries are association lists, a store puts the new binding in front and
  \<open>map_of\<close> finds the newest binding of a key. \<open>heap\<close> lists every unit object allocated
  so far, in allocation order; the identity of a new object is its position there.

  The keys of \<^verbatim>\<open>__derived_units__\<close> are tuples that mix integers (\<^verbatim>\<open>id(u)\<close>), unit objects,
  Decimals and the string \<^verbatim>\<open>'diff'\<close>. An integer and a unit object are never equal, so
  \<open>KId\<close> and \<open>KObj\<close> are different parts even for the same unit. A key of
  \<^verbatim>\<open>__complex_units__\<close> is the tuple of the pairs \<^verbatim>\<open>(id(u), p)\<close>, followed by the scale when
  there is one.
\<close>

datatype 'd key_part = KId nat | KObj "'d Unit" | KDec rat | KStr string

type_synonym complex_key = "(nat \<times> int) list \<times> rat option"

text \<open>
  A key that holds a unit object is hashed and compared through that object. Hashing the
  key hashes its parts, in order. Two keys match when their hashes agree, which (hash
  collisions apart) is when each part has the hash of its counterpart, and \<^verbatim>\<open>==\<close> on the
  tuples does not raise. For keys without unit objects this is equality.
\<close>

fun hash_part :: "'d::ab_group_add key_part \<Rightarrow> 'd error + unit" where
  "hash_part (KObj u) = hash_unit u"
| "hash_part p = Inr ()"

definition hash_tuple :: "'d::ab_group_add key_part list \<Rightarrow> 'd error + unit" where
  "hash_tuple k = bind_err (sequence_err (map hash_part k)) (\<lambda>hs. Inr ())"

fun part_hash_equal :: "'d key_part \<Rightarrow> 'd key_part \<Rightarrow> bool" where
  "part_hash_equal (KObj u') (KObj u) = (canon u' = canon u)"
| "part_hash_equal p' p = (p' = p)"

fun part_eq_raises :: "'d key_part \<Rightarrow> 'd key_part \<Rightarrow> bool" where
  "part_eq_raises (KObj u') (KObj u) = eq_raises u' u"
| "part_eq_raises p' p = False"

definition same_tuple :: "'d key_part list \<Rightarrow> 'd key_part list \<Rightarrow> 'd error + bool" where
  "same_tuple k' k =
     (if \<not> list_all2 part_hash_equal k' k then Inr False
      else if list_ex (\<lambda>(p', p). part_eq_raises p' p) (zip k' k) then Inl RecursionError
      else Inr True)"

text \<open>
  \<^verbatim>\<open>d.get(k)\<close> and \<^verbatim>\<open>d[k] = v\<close> for a key \<open>k\<close> that holds a unit object. An assignment to a key
  that is already present keeps the key and replaces the value.
\<close>

fun table_find :: "('d key_part list \<times> 'v) list \<Rightarrow> 'd key_part list \<Rightarrow> 'd error + 'v option" where
  "table_find [] k = Inr None"
| "table_find ((k', v') # t) k =
     (case same_tuple k' k of
        Inl e \<Rightarrow> Inl e
      | Inr True \<Rightarrow> Inr (Some v')
      | Inr False \<Rightarrow> table_find t k)"

definition table_get ::
  "('d::ab_group_add key_part list \<times> 'v) list \<Rightarrow> 'd key_part list \<Rightarrow> 'd error + 'v option" where
  "table_get t k = bind_err (hash_tuple k) (\<lambda>h. table_find t k)"

fun table_replace ::
  "('d key_part list \<times> 'v) list \<Rightarrow> 'd key_part list \<Rightarrow> 'v
     \<Rightarrow> 'd error + ('d key_part list \<times> 'v) list option" where
  "table_replace [] k v = Inr None"
| "table_replace ((k', v') # t) k v =
     (case same_tuple k' k of
        Inl e \<Rightarrow> Inl e
      | Inr True \<Rightarrow> Inr (Some ((k', v) # t))
      | Inr False \<Rightarrow>
          (case table_replace t k v of
             Inl e \<Rightarrow> Inl e
           | Inr None \<Rightarrow> Inr None
           | Inr (Some t') \<Rightarrow> Inr (Some ((k', v') # t'))))"

definition table_set ::
  "('d::ab_group_add key_part list \<times> 'v) list \<Rightarrow> 'd key_part list \<Rightarrow> 'v
     \<Rightarrow> 'd error + ('d key_part list \<times> 'v) list" where
  "table_set t k v =
     bind_err (hash_tuple k) (\<lambda>h.
     bind_err (table_replace t k v) (\<lambda>r.
       Inr (case r of None \<Rightarrow> (k, v) # t | Some t' \<Rightarrow> t')))"

record 'd UnitSystem =
  primary_units :: "('d \<times> 'd Unit) list"
  derived_units :: "('d key_part list \<times> 'd Unit) list"
  complex_units :: "(complex_key \<times> 'd Unit) list"
  conversion_factors :: "('d \<times> 'd Quantity) list"
  heap :: "'d Unit list"

definition empty_system :: "'d UnitSystem" where
  "empty_system = \<lparr>primary_units = [], derived_units = [], complex_units = [],
     conversion_factors = [], heap = []\<rparr>"

definition conversion_factor :: "'d UnitSystem \<Rightarrow> 'd \<Rightarrow> 'd Quantity option" where
  "conversion_factor s q = map_of (conversion_factors s) q"

text \<open>\<^verbatim>\<open>if name:\<close> holds for a non-empty string only.\<close>

fun given_name :: "string option \<Rightarrow> string option" where
  "given_name None = None"
| "given_name (Some n) = (if n = [] then None else Some n)"

subsection \<open>Construction\<close>

text \<open>
  \<^verbatim>\<open>PrimaryUnit.__new__(cls, name=None, dimension=None)\<close>. In \<^verbatim>\<open>PrimaryUnit\<close> the field \<^verbatim>\<open>name\<close> is
  the plain field of \<^verbatim>\<open>Unit\<close>, which \<^verbatim>\<open>object.__setattr__\<close> sets.
\<close>

definition PrimaryUnit_new ::
  "'d::ab_group_add UnitSystem \<Rightarrow> string option \<Rightarrow> 'd \<Rightarrow> 'd error + 'd UnitSystem \<times> 'd Unit" where
  "PrimaryUnit_new s name dimension0 =
     (case map_of (primary_units s) dimension0 of
        Some d \<Rightarrow> (if dimension d = Inr dimension0 then Inr (s, d) else Inl AssertionError)
      | None \<Rightarrow>
          (let n = PrimaryUnit (length (heap s)) (given_name name) dimension0
           in Inr (s\<lparr>primary_units := (dimension0, n) # primary_units s, heap := heap s @ [n]\<rparr>, n)))"

text \<open>
  \<^verbatim>\<open>DerivedUnit.__new__(cls, primary_unit, ratio=Decimal(1), name=None)\<close>; the first argument
  is a unit or a \<^verbatim>\<open>Quantity\<close>. The table is read with the key \<^verbatim>\<open>(id(primary_unit), ratio)\<close>
  and written with the key \<^verbatim>\<open>(primary_unit, ratio)\<close>.

  In \<^verbatim>\<open>DerivedUnit\<close> and its subclasses, and in \<^verbatim>\<open>ComplexUnit\<close>, \<^verbatim>\<open>name\<close> is an expression of the
  other fields, and \<^verbatim>\<open>object.__setattr__(n, 'name', name)\<close> raises \<^verbatim>\<open>AttributeError\<close>: with a
  non-empty \<^verbatim>\<open>name\<close> and no interned unit to return, these constructors raise before they
  register anything.
\<close>

datatype 'd unit_or_quantity = A_Unit "'d Unit" | A_Quantity "'d Quantity"

fun is_DerivedUnit :: "'d Unit \<Rightarrow> bool" where
  "is_DerivedUnit (DerivedUnit a nm pu r) = True"
| "is_DerivedUnit u = False"

fun is_OffsetDerivedUnit :: "'d Unit \<Rightarrow> bool" where
  "is_OffsetDerivedUnit (OffsetDerivedUnit a nm pu r off) = True"
| "is_OffsetDerivedUnit u = False"

fun is_PrimaryUnit :: "'d Unit \<Rightarrow> bool" where
  "is_PrimaryUnit (PrimaryUnit a nm d) = True"
| "is_PrimaryUnit u = False"

fun is_ComplexUnit :: "'d Unit \<Rightarrow> bool" where
  "is_ComplexUnit (ComplexUnit a nm comps sc) = True"
| "is_ComplexUnit u = False"

definition DerivedUnit_new ::
  "'d::ab_group_add UnitSystem \<Rightarrow> 'd unit_or_quantity \<Rightarrow> rat \<Rightarrow> string option
     \<Rightarrow> 'd error + 'd UnitSystem \<times> 'd Unit" where
  "DerivedUnit_new s primary_unit0 ratio0 name =
     (let (primary_unit1, ratio1) =
            (case primary_unit0 of
               A_Quantity q \<Rightarrow> (qunit q, qvalue q)
             | A_Unit u \<Rightarrow> (u, ratio0))
      in bind_err
           (case primary_unit1 of
              DerivedUnit a nm pu r \<Rightarrow> bind_err (dec_mul ratio1 r) (\<lambda>ratio2. Inr (pu, ratio2))
            | _ \<Rightarrow> Inr (primary_unit1, ratio1))
           (\<lambda>(primary_unit2, ratio2).
              case map_of (derived_units s) [KId (addr primary_unit2), KDec ratio2] of
                Some d \<Rightarrow> Inr (s, d)
              | None \<Rightarrow>
                  (if given_name name \<noteq> None then Inl AttributeError
                   else
                     (let n = DerivedUnit (length (heap s)) None primary_unit2 ratio2
                      in bind_err
                           (table_set (derived_units s) [KObj primary_unit2, KDec ratio2] n)
                           (\<lambda>t. Inr (s\<lparr>derived_units := t, heap := heap s @ [n]\<rparr>, n))))))"

text \<open>
  \<^verbatim>\<open>OffsetDerivedUnit.__new__(cls, primary_unit, ratio=Decimal(1), offset=Decimal(0), name=None)\<close>.
  When the argument is a \<^verbatim>\<open>DerivedUnit\<close>, \<^verbatim>\<open>primary_unit\<close> is replaced first and \<^verbatim>\<open>ratio\<close> is then
  multiplied by the \<^verbatim>\<open>ratio\<close> of the replacement. The table is read with the key
  \<^verbatim>\<open>(primary_unit, ratio, offset)\<close> and written with \<^verbatim>\<open>(id(primary_unit), ratio, offset)\<close>.
  There is no branch for a \<^verbatim>\<open>Quantity\<close> argument.
\<close>

definition OffsetDerivedUnit_new ::
  "'d::ab_group_add UnitSystem \<Rightarrow> 'd Unit \<Rightarrow> rat \<Rightarrow> rat \<Rightarrow> string option
     \<Rightarrow> 'd error + 'd UnitSystem \<times> 'd Unit" where
  "OffsetDerivedUnit_new s primary_unit0 ratio0 offset0 name =
     bind_err
       (case primary_unit0 of
          DerivedUnit a nm pu r \<Rightarrow>
            bind_err (ratio pu) (\<lambda>r'. bind_err (dec_mul ratio0 r') (\<lambda>ratio1. Inr (pu, ratio1)))
        | _ \<Rightarrow> Inr (primary_unit0, ratio0))
       (\<lambda>(primary_unit1, ratio1).
          case table_get (derived_units s) [KObj primary_unit1, KDec ratio1, KDec offset0] of
            Inl e \<Rightarrow> Inl e
          | Inr (Some d) \<Rightarrow> Inr (s, d)
          | Inr None \<Rightarrow>
              (if given_name name \<noteq> None then Inl AttributeError
               else
                 (let n = OffsetDerivedUnit (length (heap s)) None primary_unit1 ratio1 offset0
                  in Inr (s\<lparr>derived_units :=
                              ([KId (addr primary_unit1), KDec ratio1, KDec offset0], n)
                                # derived_units s,
                            heap := heap s @ [n]\<rparr>, n))))"

text \<open>
  \<^verbatim>\<open>DiffDerivedUnit.__new__(cls, offset_unit, name=None)\<close>. The message of the \<^verbatim>\<open>ValueError\<close>
  formats \<^verbatim>\<open>offset_unit\<close>.
\<close>

definition DiffDerivedUnit_new ::
  "'d UnitSystem \<Rightarrow> 'd Unit \<Rightarrow> string option \<Rightarrow> 'd error + 'd UnitSystem \<times> 'd Unit" where
  "DiffDerivedUnit_new s offset_unit name =
     (if \<not> is_OffsetDerivedUnit offset_unit
      then bind_err (str_unit offset_unit) (\<lambda>x. Inl ValueError_cannot_create_diff)
      else case map_of (derived_units s) [KId (addr offset_unit), KStr ''diff''] of
             Some d \<Rightarrow> Inr (s, d)
           | None \<Rightarrow>
               (if given_name name \<noteq> None then Inl AttributeError
                else
                  (let n = DiffDerivedUnit (length (heap s)) None offset_unit
                   in Inr (s\<lparr>derived_units :=
                               ([KId (addr offset_unit), KStr ''diff''], n) # derived_units s,
                             heap := heap s @ [n]\<rparr>, n))))"

text \<open>
  \<^verbatim>\<open>ComplexUnit.__new__(cls, components, name=None)\<close>; \<^verbatim>\<open>components\<close> is a tuple of pairs or a
  \<^verbatim>\<open>Quantity\<close>. The assertion on \<^verbatim>\<open>_is_multiplicative\<close> comes before the name is set.
\<close>

datatype 'd components_arg = Components "('d Unit \<times> int) list" | Of_Quantity "'d Quantity"

definition lookup_key :: "('d Unit \<times> int) list \<Rightarrow> rat option \<Rightarrow> complex_key" where
  "lookup_key comps sc = (map (\<lambda>(u, p). (addr u, p)) comps, sc)"

definition ComplexUnit_new ::
  "'d UnitSystem \<Rightarrow> 'd components_arg \<Rightarrow> string option
     \<Rightarrow> 'd error + 'd UnitSystem \<times> 'd Unit" where
  "ComplexUnit_new s components0 name =
     (let (sc, comps) =
            (case components0 of
               Of_Quantity q \<Rightarrow> (Some (qvalue q), to_components (qunit q) 1)
             | Components cs \<Rightarrow> (None, cs))
      in case map_of (complex_units s) (lookup_key comps sc) of
           Some d \<Rightarrow> Inr (s, d)
         | None \<Rightarrow>
             (if \<not> list_all (\<lambda>(u, p). is_multiplicative u) comps then Inl AssertionError
              else if given_name name \<noteq> None then Inl AttributeError
              else
                (let n = ComplexUnit (length (heap s)) None comps sc
                 in Inr (s\<lparr>complex_units := (lookup_key comps sc, n) # complex_units s,
                           heap := heap s @ [n]\<rparr>, n))))"

subsection \<open>Algebra\<close>

text \<open>
  \<^verbatim>\<open>defaultdict(int, pairs)\<close> keyed by unit objects, as an association list in insertion
  order. Every access hashes the key first. \<open>set_item\<close> is \<^verbatim>\<open>d[k] = v\<close> once the key is
  hashed: an existing key keeps its place (and the key object that is already there).
  \<open>get_item\<close> is the lookup; a missing key has the default \<^verbatim>\<open>int()\<close>, so \<open>dict_add\<close> is
  \<^verbatim>\<open>d[k] += p\<close>. \<open>dict_of\<close> builds the dictionary from the pairs, in order.
\<close>

fun set_item :: "('d Unit \<times> int) list \<Rightarrow> 'd Unit \<Rightarrow> int \<Rightarrow> 'd error + ('d Unit \<times> int) list" where
  "set_item [] k v = Inr [(k, v)]"
| "set_item ((k', v') # d) k v =
     (case same_key k' k of
        Inl e \<Rightarrow> Inl e
      | Inr True \<Rightarrow> Inr ((k', v) # d)
      | Inr False \<Rightarrow>
          (case set_item d k v of Inl e \<Rightarrow> Inl e | Inr d' \<Rightarrow> Inr ((k', v') # d')))"

fun get_item :: "('d Unit \<times> int) list \<Rightarrow> 'd Unit \<Rightarrow> 'd error + int" where
  "get_item [] k = Inr 0"
| "get_item ((k', v') # d) k =
     (case same_key k' k of
        Inl e \<Rightarrow> Inl e
      | Inr True \<Rightarrow> Inr v'
      | Inr False \<Rightarrow> get_item d k)"

definition dict_set ::
  "('d::ab_group_add Unit \<times> int) list \<Rightarrow> 'd Unit \<Rightarrow> int \<Rightarrow> 'd error + ('d Unit \<times> int) list" where
  "dict_set d k v = bind_err (hash_unit k) (\<lambda>h. set_item d k v)"

definition dict_add ::
  "('d::ab_group_add Unit \<times> int) list \<Rightarrow> 'd Unit \<Rightarrow> int \<Rightarrow> 'd error + ('d Unit \<times> int) list" where
  "dict_add d k p =
     bind_err (hash_unit k) (\<lambda>h.
     bind_err (get_item d k) (\<lambda>x. set_item d k (x + p)))"

definition dict_of ::
  "('d::ab_group_add Unit \<times> int) list \<Rightarrow> 'd error + ('d Unit \<times> int) list" where
  "dict_of pairs = foldl_err (\<lambda>d (k, v). dict_set d k v) [] pairs"

text \<open>
  The right operand of \<^verbatim>\<open>*\<close> and \<^verbatim>\<open>/\<close> is any Python object; \<^verbatim>\<open>isinstance(other,
  (PrimaryUnit, DerivedUnit, ComplexUnit))\<close> holds for every unit object and for nothing else.
\<close>

datatype 'd operand = Unit_operand "'d Unit" | Other_operand

text \<open>
  \<^verbatim>\<open>__mul__\<close> and \<^verbatim>\<open>__truediv__\<close>: \<^verbatim>\<open>PrimaryUnit\<close> and \<^verbatim>\<open>DerivedUnit\<close> (with its subclasses) add
  \<^verbatim>\<open>self\<close> with exponent 1; \<^verbatim>\<open>ComplexUnit\<close> adds each pair of \<^verbatim>\<open>self._to_components()\<close>. The
  message of the \<^verbatim>\<open>ValueError\<close> formats \<^verbatim>\<open>self\<close>.
\<close>

definition add_self ::
  "'d::ab_group_add Unit \<Rightarrow> ('d Unit \<times> int) list \<Rightarrow> 'd error + ('d Unit \<times> int) list" where
  "add_self self components0 =
     (case self of
        ComplexUnit a nm comps sc \<Rightarrow>
          foldl_err (\<lambda>d (u, p). dict_add d u p) components0 (to_components self 1)
      | _ \<Rightarrow> dict_add components0 self 1)"

definition unit_mul ::
  "'d::ab_group_add UnitSystem \<Rightarrow> 'd Unit \<Rightarrow> 'd operand \<Rightarrow> 'd error + 'd UnitSystem \<times> 'd Unit" where
  "unit_mul s self other =
     (case other of
        Other_operand \<Rightarrow> bind_err (str_unit self) (\<lambda>x. Inl ValueError_cannot_multiply)
      | Unit_operand ou \<Rightarrow>
          bind_err (dict_of (to_components ou 1)) (\<lambda>components0.
          bind_err (add_self self components0) (\<lambda>components1.
            ComplexUnit_new s (Components components1) None)))"

definition unit_truediv ::
  "'d::ab_group_add UnitSystem \<Rightarrow> 'd Unit \<Rightarrow> 'd operand \<Rightarrow> 'd error + 'd UnitSystem \<times> 'd Unit" where
  "unit_truediv s self other =
     (case other of
        Other_operand \<Rightarrow> bind_err (str_unit self) (\<lambda>x. Inl ValueError_cannot_divide)
      | Unit_operand ou \<Rightarrow>
          bind_err (dict_of (to_components ou (- 1))) (\<lambda>components0.
          bind_err (add_self self components0) (\<lambda>components1.
            ComplexUnit_new s (Components components1) None)))"

text \<open>
  \<^verbatim>\<open>__pow__(self, power, modulo=None)\<close>: \<^verbatim>\<open>PrimaryUnit\<close> uses \<^verbatim>\<open>power\<close>, \<^verbatim>\<open>DerivedUnit\<close> (and its
  subclasses) the constant 2, \<^verbatim>\<open>ComplexUnit\<close> multiplies every exponent by \<^verbatim>\<open>power\<close>.
\<close>

fun unit_pow ::
  "'d UnitSystem \<Rightarrow> 'd Unit \<Rightarrow> int \<Rightarrow> 'd error + 'd UnitSystem \<times> 'd Unit" where
  "unit_pow s (PrimaryUnit a nm d) pwr =
     ComplexUnit_new s (Components [(PrimaryUnit a nm d, pwr)]) None"
| "unit_pow s (ComplexUnit a nm comps sc) pwr =
     ComplexUnit_new s (Components (map (\<lambda>(u, p). (u, p * pwr)) comps)) None"
| "unit_pow s self pwr = ComplexUnit_new s (Components [(self, 2)]) None"

section \<open>Conversion\<close>

subsection \<open>Arithmetic on values\<close>

text \<open>
  \<^verbatim>\<open>type(value)(x)\<close> for a Decimal \<open>x\<close>: \<^verbatim>\<open>int(x)\<close> truncates towards zero, \<^verbatim>\<open>Decimal(x)\<close> is \<open>x\<close>,
  \<^verbatim>\<open>float(x)\<close> is the nearest float.
\<close>

definition truncate :: "rat \<Rightarrow> int" where
  "truncate x = (if 0 \<le> x then \<lfloor>x\<rfloor> else \<lceil>x\<rceil>)"

fun as_type_of :: "number \<Rightarrow> rat \<Rightarrow> number" where
  "as_type_of (IntN v) x = IntN (truncate x)"
| "as_type_of (DecN v) x = DecN x"
| "as_type_of (FloatN v) x = FloatN (Float_of_Decimal x)"

text \<open>
  A number of this magnitude is too large for a float (it rounds to \<open>2 ^ 1024\<close>), and a
  number of that magnitude rounds to the float zero.
\<close>

definition float_overflow :: "rat \<Rightarrow> bool" where
  "float_overflow x \<longleftrightarrow> 2 ^ 1024 - 2 ^ 970 \<le> \<bar>x\<bar>"

definition float_rounds_to_zero :: "rat \<Rightarrow> bool" where
  "float_rounds_to_zero x \<longleftrightarrow> \<bar>x\<bar> \<le> 1 / 2 ^ 1075"

text \<open>
  \<^verbatim>\<open>+\<close>, \<^verbatim>\<open>-\<close> and \<^verbatim>\<open>*\<close> on two numbers. An \<^verbatim>\<open>int\<close> operand of a Decimal operation is converted
  exactly; an \<^verbatim>\<open>int\<close> operand of a float operation is converted to a float, which raises
  \<^verbatim>\<open>OverflowError\<close> when it is too large; a Decimal and a float do not mix.
\<close>

fun num_add :: "number \<Rightarrow> number \<Rightarrow> 'd error + number" where
  "num_add (IntN a) (IntN b) = Inr (IntN (a + b))"
| "num_add (DecN a) (DecN b) = bind_err (dec_add a b) (\<lambda>r. Inr (DecN r))"
| "num_add (IntN a) (DecN b) = bind_err (dec_add (of_int a) b) (\<lambda>r. Inr (DecN r))"
| "num_add (DecN a) (IntN b) = bind_err (dec_add a (of_int b)) (\<lambda>r. Inr (DecN r))"
| "num_add (FloatN a) (FloatN b) = Inr (FloatN (Float_add a b))"
| "num_add (FloatN a) (IntN b) =
     (if float_overflow (of_int b) then Inl OverflowError
      else Inr (FloatN (Float_add a (Float_of_int b))))"
| "num_add (IntN a) (FloatN b) =
     (if float_overflow (of_int a) then Inl OverflowError
      else Inr (FloatN (Float_add (Float_of_int a) b)))"
| "num_add (DecN a) (FloatN b) = Inl TypeError"
| "num_add (FloatN a) (DecN b) = Inl TypeError"

fun num_sub :: "number \<Rightarrow> number \<Rightarrow> 'd error + number" where
  "num_sub (IntN a) (IntN b) = Inr (IntN (a - b))"
| "num_sub (DecN a) (DecN b) = bind_err (dec_sub a b) (\<lambda>r. Inr (DecN r))"
| "num_sub (IntN a) (DecN b) = bind_err (dec_sub (of_int a) b) (\<lambda>r. Inr (DecN r))"
| "num_sub (DecN a) (IntN b) = bind_err (dec_sub a (of_int b)) (\<lambda>r. Inr (DecN r))"
| "num_sub (FloatN a) (FloatN b) = Inr (FloatN (Float_sub a b))"
| "num_sub (FloatN a) (IntN b) =
     (if float_overflow (of_int b) then Inl OverflowError
      else Inr (FloatN (Float_sub a (Float_of_int b))))"
| "num_sub (IntN a) (FloatN b) =
     (if float_overflow (of_int a) then Inl OverflowError
      else Inr (FloatN (Float_sub (Float_of_int a) b)))"
| "num_sub (DecN a) (FloatN b) = Inl TypeError"
| "num_sub (FloatN a) (DecN b) = Inl TypeError"

fun num_mul :: "number \<Rightarrow> number \<Rightarrow> 'd error + number" where
  "num_mul (IntN a) (IntN b) = Inr (IntN (a * b))"
| "num_mul (DecN a) (DecN b) = bind_err (dec_mul a b) (\<lambda>r. Inr (DecN r))"
| "num_mul (IntN a) (DecN b) = bind_err (dec_mul (of_int a) b) (\<lambda>r. Inr (DecN r))"
| "num_mul (DecN a) (IntN b) = bind_err (dec_mul a (of_int b)) (\<lambda>r. Inr (DecN r))"
| "num_mul (FloatN a) (FloatN b) = Inr (FloatN (Float_mul a b))"
| "num_mul (FloatN a) (IntN b) =
     (if float_overflow (of_int b) then Inl OverflowError
      else Inr (FloatN (Float_mul a (Float_of_int b))))"
| "num_mul (IntN a) (FloatN b) =
     (if float_overflow (of_int a) then Inl OverflowError
      else Inr (FloatN (Float_mul (Float_of_int a) b)))"
| "num_mul (DecN a) (FloatN b) = Inl TypeError"
| "num_mul (FloatN a) (DecN b) = Inl TypeError"

text \<open>
  \<^verbatim>\<open>value / type(value)(x)\<close>, the only form of division in \<^verbatim>\<open>unit.py\<close>. On two ints \<^verbatim>\<open>/\<close> is
  true division: it yields the float nearest to the quotient, and raises when the divisor
  is 0 or the quotient is too large for a float. On floats it raises when the divisor is
  the float zero.
\<close>

fun div_as :: "number \<Rightarrow> rat \<Rightarrow> 'd error + number" where
  "div_as (IntN a) x =
     (if truncate x = 0 then Inl ZeroDivisionError
      else if float_overflow (of_int a / of_int (truncate x)) then Inl OverflowError
      else Inr (FloatN (Int_truediv a (truncate x))))"
| "div_as (DecN a) x = bind_err (dec_div a x) (\<lambda>r. Inr (DecN r))"
| "div_as (FloatN a) x =
     (if float_rounds_to_zero x then Inl ZeroDivisionError
      else Inr (FloatN (Float_div a (Float_of_Decimal x))))"

subsection \<open>Conversion between units\<close>

text \<open>
  \<^verbatim>\<open>_do_convert(self, value, to)\<close>, one equation per class in the order of the file:
  \<^verbatim>\<open>PrimaryUnit\<close>, \<^verbatim>\<open>DerivedUnit\<close>, \<^verbatim>\<open>OffsetDerivedUnit\<close>, \<^verbatim>\<open>DiffDerivedUnit\<close> (which inherits the
  method of \<^verbatim>\<open>DerivedUnit\<close> and reads \<^verbatim>\<open>ratio\<close> and \<^verbatim>\<open>primary_unit\<close> from its offset unit) and
  \<^verbatim>\<open>ComplexUnit\<close>. \<^verbatim>\<open>to is not self.primary_unit\<close> compares identities. The message of the
  failing assertion of \<^verbatim>\<open>PrimaryUnit._do_convert\<close> formats \<^verbatim>\<open>self\<close> and \<^verbatim>\<open>to\<close>.
\<close>

fun do_convert :: "'d Unit \<Rightarrow> number \<Rightarrow> 'd Unit \<Rightarrow> 'd error + number" where
  "do_convert (PrimaryUnit a nm d) v to =
     (case to of
        OffsetDerivedUnit b nm' pu r off \<Rightarrow>
          bind_err (div_as v r) (\<lambda>q. num_sub q (as_type_of v off))
      | DerivedUnit b nm' pu r \<Rightarrow> div_as v r
      | DiffDerivedUnit b nm' ou \<Rightarrow> bind_err (ratio to) (\<lambda>r. div_as v r)
      | _ \<Rightarrow>
          bind_err (str_unit (PrimaryUnit a nm d)) (\<lambda>x.
          bind_err (str_unit to) (\<lambda>y. Inl AssertionError)))"
| "do_convert (DerivedUnit a nm pu r) v to =
     bind_err (num_mul v (as_type_of v r)) (\<lambda>primary_value.
       if addr to \<noteq> addr pu then do_convert pu primary_value to else Inr primary_value)"
| "do_convert (OffsetDerivedUnit a nm pu r off) v to =
     bind_err (num_add v (as_type_of v off)) (\<lambda>x.
     bind_err (num_mul x (as_type_of v r)) (\<lambda>primary_value.
       if addr to \<noteq> addr pu then do_convert pu primary_value to else Inr primary_value))"
| "do_convert (DiffDerivedUnit a nm (OffsetDerivedUnit b nm' pu r off)) v to =
     bind_err (num_mul v (as_type_of v r)) (\<lambda>primary_value.
       if addr to \<noteq> addr pu then do_convert pu primary_value to else Inr primary_value)"
| "do_convert (DiffDerivedUnit a nm ou) v to = Inl AttributeError"
| "do_convert (ComplexUnit a nm comps sc) v to =
     bind_err (ratio (ComplexUnit a nm comps sc)) (\<lambda>rs.
     bind_err (ratio to) (\<lambda>rt.
     bind_err (dec_div rs rt) (\<lambda>q. num_mul (as_type_of v q) v)))"

text \<open>
  \<^verbatim>\<open>Unit.convert(self, value, to)\<close>. The cross-dimension branch builds the unit
  \<^verbatim>\<open>self * conversion_factor.unit\<close> (which may intern a new \<^verbatim>\<open>ComplexUnit\<close>) and calls
  \<^verbatim>\<open>convert\<close> on it; nothing bounds the number of these calls, so the result is an option and
  \<open>None\<close> stands for a conversion that does not return. The message of the \<^verbatim>\<open>ValueError\<close>
  formats \<^verbatim>\<open>self\<close> and \<^verbatim>\<open>to\<close>, so that \<^verbatim>\<open>TypeError\<close> is raised instead when one of them has no
  name.
\<close>

partial_function (option) convert ::
  "'d::ab_group_add UnitSystem \<Rightarrow> 'd Unit \<Rightarrow> number \<Rightarrow> 'd Unit
     \<Rightarrow> ('d error + 'd UnitSystem \<times> number) option" where
  "convert s self v to =
     (if addr to = addr self then Some (Inr (s, v))
      else case dimension self of
        Inl e \<Rightarrow> Some (Inl e)
      | Inr ds \<Rightarrow>
         (case dimension to of
            Inl e \<Rightarrow> Some (Inl e)
          | Inr dt \<Rightarrow>
             if ds = dt then
               (case do_convert self v to of
                  Inl e \<Rightarrow> Some (Inl e)
                | Inr v' \<Rightarrow> Some (Inr (s, v')))
             else
               (case conversion_factor s (dim_div dt ds) of
                  Some cf \<Rightarrow>
                    (case num_mul v (as_type_of v (qvalue cf)) of
                       Inl e \<Rightarrow> Some (Inl e)
                     | Inr converted_value \<Rightarrow>
                        (case unit_mul s self (Unit_operand (qunit cf)) of
                           Inl e \<Rightarrow> Some (Inl e)
                         | Inr (s', converted_units) \<Rightarrow>
                             convert s' converted_units converted_value to))
                | None \<Rightarrow>
                    (case str_unit self of
                       Inl e \<Rightarrow> Some (Inl e)
                     | Inr x \<Rightarrow>
                        (case str_unit to of
                           Inl e \<Rightarrow> Some (Inl e)
                         | Inr y \<Rightarrow>
                             Some (Inl (ValueError_cannot_convert self to (dim_div dt ds))))))))"

declare convert.simps [code]


section \<open>Well-formed unit systems\<close>

text \<open>
  The states that the constructors produce from the empty unit system have the following
  properties: the identity of every object is its position in the heap; the units an
  object refers to are objects of the heap; the components of a \<^verbatim>\<open>ComplexUnit\<close> are
  multiplicative (the assertion of \<^verbatim>\<open>ComplexUnit.__new__\<close>) and the offset unit of a
  \<^verbatim>\<open>DiffDerivedUnit\<close> is an \<^verbatim>\<open>OffsetDerivedUnit\<close>; every table holds objects of the heap, a
  \<^verbatim>\<open>ComplexUnit\<close> under the key computed from its own fields, under a key \<^verbatim>\<open>(id, 'diff')\<close> a
  \<^verbatim>\<open>DiffDerivedUnit\<close> of the unit with that identity, and the \<^verbatim>\<open>PrimaryUnit\<close> of a dimension
  under that dimension.
\<close>

fun subunits :: "'d Unit \<Rightarrow> 'd Unit list" where
  "subunits (PrimaryUnit a nm d) = []"
| "subunits (DerivedUnit a nm pu r) = [pu]"
| "subunits (OffsetDerivedUnit a nm pu r off) = [pu]"
| "subunits (DiffDerivedUnit a nm ou) = [ou]"
| "subunits (ComplexUnit a nm comps sc) = map fst comps"

fun explicit_scale :: "'d Unit \<Rightarrow> rat option" where
  "explicit_scale (ComplexUnit a nm comps sc) = sc"
| "explicit_scale u = None"

fun is_DiffDerivedUnit :: "'d Unit \<Rightarrow> bool" where
  "is_DiffDerivedUnit (DiffDerivedUnit a nm ou) = True"
| "is_DiffDerivedUnit u = False"

fun diff_key_ok :: "'d key_part list \<Rightarrow> 'd Unit \<Rightarrow> bool" where
  "diff_key_ok [KId a, KStr x] u = (is_DiffDerivedUnit u \<and> map addr (subunits u) = [a])"
| "diff_key_ok k u = True"

definition wf_object :: "'d Unit list \<Rightarrow> 'd Unit \<Rightarrow> bool" where
  "wf_object h u \<longleftrightarrow>
     list_all (\<lambda>v. v \<in> set h) (subunits u)
     \<and> list_all (\<lambda>(c, p). is_multiplicative c) (components u)
     \<and> (is_DiffDerivedUnit u \<longrightarrow> list_all is_OffsetDerivedUnit (subunits u))"

definition wf :: "'d::ab_group_add UnitSystem \<Rightarrow> bool" where
  "wf s \<longleftrightarrow>
     map addr (heap s) = [0..<length (heap s)]
     \<and> list_all (wf_object (heap s)) (heap s)
     \<and> list_all (\<lambda>(k, c). c \<in> set (heap s) \<and> is_ComplexUnit c
          \<and> lookup_key (components c) (explicit_scale c) = k) (complex_units s)
     \<and> list_all (\<lambda>(k, u). u \<in> set (heap s) \<and> diff_key_ok k u) (derived_units s)
     \<and> list_all (\<lambda>(d, p). p \<in> set (heap s) \<and> is_PrimaryUnit p \<and> dimension p = Inr d)
          (primary_units s)"

text \<open>The unit passed to a constructor, and the components and scale that
  \<^verbatim>\<open>ComplexUnit.__new__\<close> derives from its argument.\<close>

fun arg_unit :: "'d unit_or_quantity \<Rightarrow> 'd Unit" where
  "arg_unit (A_Unit u) = u"
| "arg_unit (A_Quantity q) = qunit q"

fun arg_components :: "'d components_arg \<Rightarrow> ('d Unit \<times> int) list" where
  "arg_components (Components cs) = cs"
| "arg_components (Of_Quantity q) = to_components (qunit q) 1"

fun arg_scale :: "'d components_arg \<Rightarrow> rat option" where
  "arg_scale (Components cs) = None"
| "arg_scale (Of_Quantity q) = Some (qvalue q)"

section \<open>Example unit systems\<close>

text \<open>
  Dimensions of the examples are exponent vectors over two base dimensions, length and
  temperature. The states are well-formed unit systems; the lemmas of the next section
  show how the constructors produce them.
\<close>

definition length_dim :: "int \<times> int" where
  "length_dim = (1, 0)"

definition temperature_dim :: "int \<times> int" where
  "temperature_dim = (0, 1)"

definition metre :: "(int \<times> int) Unit" where
  "metre = PrimaryUnit 0 (Some ''metre'') length_dim"

definition sys_m :: "(int \<times> int) UnitSystem" where
  "sys_m = \<lparr>primary_units = [(length_dim, metre)], derived_units = [], complex_units = [],
     conversion_factors = [], heap = [metre]\<rparr>"

definition kilometre :: "(int \<times> int) Unit" where
  "kilometre = DerivedUnit 1 None metre 1000"

definition sys_km :: "(int \<times> int) UnitSystem" where
  "sys_km = \<lparr>primary_units = [(length_dim, metre)],
     derived_units = [([KObj metre, KDec 1000], kilometre)], complex_units = [],
     conversion_factors = [], heap = [metre, kilometre]\<rparr>"

definition kilometre2 :: "(int \<times> int) Unit" where
  "kilometre2 = DerivedUnit 2 None metre 1000"

definition sys_km2 :: "(int \<times> int) UnitSystem" where
  "sys_km2 = \<lparr>primary_units = [(length_dim, metre)],
     derived_units = [([KObj metre, KDec 1000], kilometre2)],
     complex_units = [], conversion_factors = [], heap = [metre, kilometre, kilometre2]\<rparr>"

definition offset_of_km :: "(int \<times> int) Unit" where
  "offset_of_km = OffsetDerivedUnit 2 None metre 2 0"

definition sys_offset_of_km :: "(int \<times> int) UnitSystem" where
  "sys_offset_of_km = \<lparr>primary_units = [(length_dim, metre)],
     derived_units = [([KId 0, KDec 2, KDec 0], offset_of_km), ([KObj metre, KDec 1000], kilometre)],
     complex_units = [], conversion_factors = [], heap = [metre, kilometre, offset_of_km]\<rparr>"

definition kelvin :: "(int \<times> int) Unit" where
  "kelvin = PrimaryUnit 0 (Some ''kelvin'') temperature_dim"

definition sys_k :: "(int \<times> int) UnitSystem" where
  "sys_k = \<lparr>primary_units = [(temperature_dim, kelvin)], derived_units = [],
     complex_units = [], conversion_factors = [], heap = [kelvin]\<rparr>"

definition celsius :: "(int \<times> int) Unit" where
  "celsius = OffsetDerivedUnit 1 None kelvin 1 (27315 / 100)"

definition sys_c :: "(int \<times> int) UnitSystem" where
  "sys_c = \<lparr>primary_units = [(temperature_dim, kelvin)],
     derived_units = [([KId 0, KDec 1, KDec (27315 / 100)], celsius)],
     complex_units = [], conversion_factors = [], heap = [kelvin, celsius]\<rparr>"

definition celsius_diff :: "(int \<times> int) Unit" where
  "celsius_diff = DiffDerivedUnit 2 None celsius"

definition sys_cd :: "(int \<times> int) UnitSystem" where
  "sys_cd = \<lparr>primary_units = [(temperature_dim, kelvin)],
     derived_units = [([KId 1, KStr ''diff''], celsius_diff),
                      ([KId 0, KDec 1, KDec (27315 / 100)], celsius)],
     complex_units = [], conversion_factors = [], heap = [kelvin, celsius, celsius_diff]\<rparr>"

text \<open>
  A unit system in which a \<^verbatim>\<open>ComplexUnit\<close> with the components of the metre has a name of
  its own.
\<close>

definition foo :: "(int \<times> int) Unit" where
  "foo = ComplexUnit 1 (Some ''foo'') [(metre, 1)] None"

definition sys_foo :: "(int \<times> int) UnitSystem" where
  "sys_foo = \<lparr>primary_units = [(length_dim, metre)], derived_units = [],
     complex_units = [(([(0, 1)], None), foo)], conversion_factors = [], heap = [metre, foo]\<rparr>"

definition five_metres :: "(int \<times> int) Unit" where
  "five_metres = ComplexUnit 1 None [(metre, 1)] (Some 5)"

definition sys_5m :: "(int \<times> int) UnitSystem" where
  "sys_5m = \<lparr>primary_units = [(length_dim, metre)], derived_units = [],
     complex_units = [(([(0, 1)], Some 5), five_metres)], conversion_factors = [],
     heap = [metre, five_metres]\<rparr>"

definition metre_squared :: "(int \<times> int) Unit" where
  "metre_squared = ComplexUnit 2 None [(metre, 2)] None"

definition sys_5m2 :: "(int \<times> int) UnitSystem" where
  "sys_5m2 = \<lparr>primary_units = [(length_dim, metre)], derived_units = [],
     complex_units = [(([(0, 2)], None), metre_squared), (([(0, 1)], Some 5), five_metres)],
     conversion_factors = [], heap = [metre, five_metres, metre_squared]\<rparr>"

definition kelvin_1 :: "(int \<times> int) Unit" where
  "kelvin_1 = PrimaryUnit 1 (Some ''kelvin'') temperature_dim"

definition kelvin_per_metre :: "(int \<times> int) Unit" where
  "kelvin_per_metre = ComplexUnit 2 None [(metre, - 1), (kelvin_1, 1)] None"

text \<open>
  A unit system with the metre, the kelvin, their quotient, and a registered conversion
  factor of 2.5 kelvin per metre for the dimension quotient temperature / length.
\<close>

definition sys_mk :: "(int \<times> int) UnitSystem" where
  "sys_mk = \<lparr>primary_units = [(temperature_dim, kelvin_1), (length_dim, metre)],
     derived_units = [],
     complex_units = [(([(0, - 1), (1, 1)], None), kelvin_per_metre)],
     conversion_factors = [(dim_div temperature_dim length_dim, Quantity (5 / 2) kelvin_per_metre)],
     heap = [metre, kelvin_1, kelvin_per_metre]\<rparr>"

definition metre_kelvin_per_metre :: "(int \<times> int) Unit" where
  "metre_kelvin_per_metre = ComplexUnit 3 None [(metre, 0), (kelvin_1, 1)] None"

definition sys_mk2 :: "(int \<times> int) UnitSystem" where
  "sys_mk2 = \<lparr>primary_units = [(temperature_dim, kelvin_1), (length_dim, metre)],
     derived_units = [],
     complex_units = [(([(0, 0), (1, 1)], None), metre_kelvin_per_metre),
                      (([(0, - 1), (1, 1)], None), kelvin_per_metre)],
     conversion_factors = [(dim_div temperature_dim length_dim, Quantity (5 / 2) kelvin_per_metre)],
     heap = [metre, kelvin_1, kelvin_per_metre, metre_kelvin_per_metre]\<rparr>"


section \<open>Properties\<close>

subsection \<open>Decimals that need no rounding\<close>

lemma round_half_even_of_int: "round_half_even (of_int i) = i"
  by (simp add: round_half_even_def)

lemma quotient_of_pos:
  assumes "0 < (x::rat)" "quotient_of x = (n, d)"
  shows "0 < n \<and> 0 < d \<and> x = of_int n / of_int d"
proof -
  from assms(2) have d: "0 < d" by (rule quotient_of_denom_pos)
  from assms(2) have x: "x = of_int n / of_int d" by (rule quotient_of_div)
  with assms(1) d have "0 < n" by (simp add: zero_less_divide_iff)
  with d x show ?thesis by simp
qed

lemma power_int_10_less_cancel:
  assumes "(10::rat) powi a < 10 powi b" shows "a < b"
proof (rule ccontr)
  assume "\<not> a < b"
  then have "b \<le> a" by simp
  then have "(10::rat) powi b \<le> 10 powi a" by (rule power_int_increasing) simp
  with assms show False by simp
qed

lemma floorlog_10_bounds:
  assumes "0 < (k::int)"
  shows "(10::rat) powi (int (floorlog 10 (nat k)) - 1) \<le> of_int k
       \<and> of_int k < (10::rat) powi (int (floorlog 10 (nat k)))"
proof -
  let ?f = "floorlog 10 (nat k)"
  from assms have k: "0 < nat k" by simp
  from floorlog_bounds [OF k, of 10]
  have b: "10 ^ (?f - 1) \<le> nat k" "nat k < 10 ^ ?f" by simp_all
  from b(2) k have f: "1 \<le> ?f" by (cases ?f) simp_all
  from b(1) have "(of_nat (10 ^ (?f - 1)) :: rat) \<le> of_nat (nat k)" by (rule of_nat_mono)
  then have 1: "(10::rat) ^ (?f - 1) \<le> of_int k" using assms by simp
  from b(2) have "(of_nat (nat k) :: rat) < of_nat (10 ^ ?f)" by (simp only: of_nat_less_iff)
  then have 2: "of_int k < (10::rat) ^ ?f" using assms by simp
  have "int ?f - 1 = int (?f - 1)" using f by simp
  then have "(10::rat) powi (int ?f - 1) = 10 ^ (?f - 1)" by (simp only: power_int_of_nat)
  moreover have "(10::rat) powi (int ?f) = 10 ^ ?f" by (simp only: power_int_of_nat)
  ultimately show ?thesis using 1 2 by simp
qed

lemma adjusted_eq:
  assumes "10 powi e \<le> \<bar>x\<bar>" "\<bar>x\<bar> < 10 powi (e + 1)"
  shows "adjusted x = e"
proof -
  obtain n d where q: "quotient_of \<bar>x\<bar> = (n, d)" by (cases "quotient_of \<bar>x\<bar>")
  have "(0::rat) < 10 powi e" by simp
  with assms(1) have pos: "0 < \<bar>x\<bar>" by linarith
  from quotient_of_pos [OF pos q]
  have n: "0 < n" and d: "0 < d" and x: "\<bar>x\<bar> = of_int n / of_int d" by simp_all
  let ?fn = "int (floorlog 10 (nat n))" and ?fd = "int (floorlog 10 (nat d))"
  let ?e = "?fn - ?fd"
  note bn = floorlog_10_bounds [OF n] and bd = floorlog_10_bounds [OF d]
  have dpos: "(0::rat) < of_int d" using d by simp
  have npos: "(0::rat) < of_int n" using n by simp
  have up: "\<bar>x\<bar> < 10 powi (?e + 1)"
  proof -
    have "of_int n / of_int d < (10::rat) powi ?fn / of_int d"
      using bn dpos by (simp add: divide_strict_right_mono)
    also have "\<dots> \<le> (10::rat) powi ?fn / 10 powi (?fd - 1)"
      using bd dpos by (intro divide_left_mono) (simp_all add: zero_less_mult_iff)
    also have "\<dots> = 10 powi (?fn - (?fd - 1))" by (subst power_int_diff) simp_all
    finally show ?thesis using x by (simp add: algebra_simps)
  qed
  have lo: "10 powi (?e - 1) < \<bar>x\<bar>"
  proof -
    have "(10::rat) powi (?fn - 1 - ?fd) = 10 powi (?fn - 1) / 10 powi ?fd"
      by (subst power_int_diff) simp_all
    also have "\<dots> \<le> of_int n / 10 powi ?fd"
      using bn by (intro divide_right_mono) simp_all
    also have "\<dots> < of_int n / of_int d"
      using bd npos dpos by (intro divide_strict_left_mono) simp_all
    finally show ?thesis using x by (simp add: algebra_simps)
  qed
  have a: "adjusted x = (if 10 powi ?e \<le> \<bar>x\<bar> then ?e else ?e - 1)"
    by (simp add: adjusted_def q Let_def)
  show ?thesis
  proof (cases "10 powi ?e \<le> \<bar>x\<bar>")
    case True
    with assms(2) have "(10::rat) powi ?e < 10 powi (e + 1)" by linarith
    then have 1: "?e < e + 1" by (rule power_int_10_less_cancel)
    from assms(1) up have "(10::rat) powi e < 10 powi (?e + 1)" by linarith
    then have 2: "e < ?e + 1" by (rule power_int_10_less_cancel)
    from 1 2 True a show ?thesis by simp
  next
    case False
    from lo assms(2) have "(10::rat) powi (?e - 1) < 10 powi (e + 1)" by linarith
    then have 1: "?e - 1 < e + 1" by (rule power_int_10_less_cancel)
    from assms(1) False have "(10::rat) powi e < 10 powi ?e" by linarith
    then have 2: "e < ?e" by (rule power_int_10_less_cancel)
    from 1 2 False a show ?thesis by simp
  qed
qed

lemma round_prec_exact:
  assumes "10 powi e \<le> \<bar>x\<bar>" "\<bar>x\<bar> < 10 powi (e + 1)" "e \<le> 999999"
    "x = of_int i * 10 powi (max (e - 27) (- 1000026))"
  shows "round_prec x = Some x"
proof -
  have "(0::rat) < 10 powi e" by simp
  with assms(1) have "0 < \<bar>x\<bar>" by linarith
  then have nz: "x \<noteq> 0" by simp
  let ?q = "(10::rat) powi (max (e - 27) (- 1000026))"
  have q: "?q \<noteq> 0" by simp
  have a: "adjusted x = e" by (rule adjusted_eq [OF assms(1,2)])
  from assms(4) q have "x / ?q = of_int i" by simp
  then have "of_int (round_half_even (x / ?q)) * ?q = x"
    using assms(4) by (simp only: round_half_even_of_int)
  with nz a assms(3) show ?thesis by (simp add: round_prec_def Let_def)
qed

lemma round_prec_eq:
  assumes "10 powi e \<le> \<bar>x\<bar>" "\<bar>x\<bar> < 10 powi (e + 1)"
    "round_half_even (x / 10 powi (max (e - 27) (- 1000026))) = i"
    "y = of_int i * 10 powi (max (e - 27) (- 1000026))"
    "10 powi e' \<le> \<bar>y\<bar>" "\<bar>y\<bar> < 10 powi (e' + 1)" "e' \<le> 999999"
  shows "round_prec x = Some y"
proof -
  have "(0::rat) < 10 powi e" by simp
  with assms(1) have "0 < \<bar>x\<bar>" by linarith
  then have nz: "x \<noteq> 0" by simp
  have a: "adjusted x = e" by (rule adjusted_eq [OF assms(1,2)])
  have a': "adjusted y = e'" by (rule adjusted_eq [OF assms(5,6)])
  from nz a a' assms(3,4,7) show ?thesis by (simp add: round_prec_def Let_def)
qed

text \<open>
  A Decimal with at most 28 significant digits is the result of an operation whose exact
  result it is.
\<close>

lemma round_context_exact:
  assumes "10 powi e \<le> \<bar>x\<bar>" "\<bar>x\<bar> < 10 powi (e + 1)" "e \<le> 999999"
    "x = of_int i * 10 powi (max (e - 27) (- 1000026))"
  shows "round_context x = Inr x"
  by (simp add: round_context_def round_prec_exact [OF assms])

lemma round_context_0: "round_context 0 = Inr 0"
  by (simp add: round_context_def round_prec_def)

lemma round_context_1: "round_context 1 = Inr 1"
  by (rule round_context_exact [where e = 0 and i = "10 ^ 27"])
    (simp_all add: power_int_def power_one_over)

lemma round_context_2: "round_context 2 = Inr 2"
  by (rule round_context_exact [where e = 0 and i = "2 * 10 ^ 27"])
    (simp_all add: power_int_def power_one_over)

lemma round_context_20: "round_context 20 = Inr 20"
  by (rule round_context_exact [where e = 1 and i = "2 * 10 ^ 27"])
    (simp_all add: power_int_def power_one_over)

lemma round_context_25: "round_context 25 = Inr 25"
  by (rule round_context_exact [where e = 1 and i = "25 * 10 ^ 26"])
    (simp_all add: power_int_def power_one_over)

lemma round_context_2000: "round_context 2000 = Inr 2000"
  by (rule round_context_exact [where e = 3 and i = "2 * 10 ^ 27"])
    (simp_all add: power_int_def power_one_over)

lemma round_context_27315: "round_context (5463 / 20) = Inr (5463 / 20)"
  by (rule round_context_exact [where e = 2 and i = "27315 * 10 ^ 23"])
    (simp_all add: power_int_def power_one_over)

text \<open>One third has no finite decimal expansion: the quotient is rounded.\<close>

lemma round_context_third:
  "round_context (1 / 3) = Inr (3333333333333333333333333333 / 10000000000000000000000000000)"
proof -
  have f: "\<lfloor>10000000000000000000000000000 / 3 :: rat\<rfloor> = 3333333333333333333333333333"
    by (simp add: floor_eq_iff)
  have "round_prec (1 / 3) = Some (3333333333333333333333333333 / 10000000000000000000000000000)"
    by (rule round_prec_eq [where e = "- 1" and e' = "- 1" and i = 3333333333333333333333333333])
      (simp_all add: power_int_def power_one_over round_half_even_def Let_def f)
  then show ?thesis by (simp add: round_context_def)
qed

lemma round_context_28_digits:
  "round_context (- (1666666666666666666666666667 / 10000000000000000000000000000))
     = Inr (- (1666666666666666666666666667 / 10000000000000000000000000000))"
  "round_context (3333333333333333333333333333 / 10000000000000000000000000000)
     = Inr (3333333333333333333333333333 / 10000000000000000000000000000)"
  "round_context (9999999999999999999999999999 / 10000000000000000000000000000)
     = Inr (9999999999999999999999999999 / 10000000000000000000000000000)"
  by (rule round_context_exact [where e = "- 1" and i = "- 1666666666666666666666666667"],
      simp_all add: power_int_def power_one_over,
      rule round_context_exact [where e = "- 1" and i = "3333333333333333333333333333"],
      simp_all add: power_int_def power_one_over,
      rule round_context_exact [where e = "- 1" and i = "9999999999999999999999999999"],
      simp_all add: power_int_def power_one_over)

lemmas round_context_examples = round_context_0 round_context_1 round_context_2
  round_context_20 round_context_25 round_context_2000 round_context_27315

subsection \<open>The example states are reached by construction\<close>

lemma metre_new:
  "PrimaryUnit_new empty_system (Some ''metre'') length_dim = Inr (sys_m, metre)"
  by (simp add: PrimaryUnit_new_def empty_system_def sys_m_def metre_def Let_def)

lemma metre_interned:
  "PrimaryUnit_new sys_m (Some ''meter'') length_dim = Inr (sys_m, metre)"
  by (simp add: PrimaryUnit_new_def sys_m_def metre_def)

subsection \<open>Interning\<close>

text \<open>
  C1 (interning: equal construction keys give the identical object). The code does not do
  this for \<^verbatim>\<open>DerivedUnit\<close>: \<^verbatim>\<open>__new__\<close> looks the key \<^verbatim>\<open>(id(primary_unit), ratio)\<close> up and
  stores the new object under \<^verbatim>\<open>(primary_unit, ratio)\<close>, so the lookup never finds it.
  \<^verbatim>\<open>DerivedUnit(primary_unit=metre, ratio=Decimal(1000))\<close>, called twice, gives two objects
  with different identities.
\<close>

theorem DerivedUnit_new_twice:
  "DerivedUnit_new sys_m (A_Unit metre) 1000 None = Inr (sys_km, kilometre)
   \<and> DerivedUnit_new sys_km (A_Unit metre) 1000 None = Inr (sys_km2, kilometre2)
   \<and> addr kilometre \<noteq> addr kilometre2"
  by (simp add: DerivedUnit_new_def table_set_def hash_tuple_def same_tuple_def
      sys_m_def sys_km_def sys_km2_def metre_def kilometre_def kilometre2_def Let_def)

text \<open>With a non-empty name these constructors raise when there is no interned unit.\<close>

lemma DerivedUnit_new_named:
  "DerivedUnit_new sys_m (A_Unit metre) 1000 (Some ''kilometre'') = Inl AttributeError"
  by (simp add: DerivedUnit_new_def sys_m_def metre_def Let_def)

subsection \<open>Flattening\<close>

text \<open>
  C2 (a unit built on a derived unit stores the primary unit of that unit, and the product
  of the two ratios). \<^verbatim>\<open>OffsetDerivedUnit.__new__\<close> replaces \<^verbatim>\<open>primary_unit\<close> before it
  multiplies, so the ratio is multiplied by the ratio of the primary unit, which is 1:
  an offset unit of ratio 2 built on the kilometre has ratio 2, not 2000.
  \<^verbatim>\<open>DerivedUnit.__new__\<close>, on the same arguments, stores 2000.
\<close>

theorem OffsetDerivedUnit_new_on_derived:
  "OffsetDerivedUnit_new sys_km kilometre 2 0 None = Inr (sys_offset_of_km, offset_of_km)
   \<and> primary_unit offset_of_km = Inr metre
   \<and> ratio offset_of_km = Inr 2
   \<and> ratio kilometre = Inr 1000"
  by (simp add: OffsetDerivedUnit_new_def table_get_def hash_tuple_def same_tuple_def
      dec_mul_def round_context_examples
      sys_km_def sys_offset_of_km_def offset_of_km_def metre_def kilometre_def Let_def)

lemma DerivedUnit_new_on_derived:
  "DerivedUnit_new sys_km (A_Unit kilometre) 2 None =
     Inr (sys_km\<lparr>derived_units := ([KObj metre, KDec 2000], DerivedUnit 2 None metre 2000)
                    # derived_units sys_km,
                 heap := heap sys_km @ [DerivedUnit 2 None metre 2000]\<rparr>,
          DerivedUnit 2 None metre 2000)"
  by (simp add: DerivedUnit_new_def table_set_def hash_tuple_def same_tuple_def
      dec_mul_def round_context_examples sys_km_def metre_def kilometre_def Let_def)

subsection \<open>Conversion to the same unit\<close>

text \<open>
  C4: for every unit \<open>u\<close> and every value \<open>v\<close>, \<^verbatim>\<open>u.convert(v, u)\<close> returns \<open>v\<close> itself: the
  first test of \<^verbatim>\<open>convert\<close> is \<^verbatim>\<open>to is self\<close>, and no arithmetic is done (the unit system is
  unchanged as well).
\<close>

theorem convert_to_self:
  "convert s u v u = Some (Inr (s, v))"
  by (subst convert.simps) simp

subsection \<open>Well-formed unit systems: identity and tables\<close>

lemma wf_heap_nth:
  assumes "wf s" "u \<in> set (heap s)"
  shows "addr u < length (heap s) \<and> heap s ! addr u = u"
proof -
  from assms(2) obtain i where i: "i < length (heap s)" "heap s ! i = u"
    by (auto simp: in_set_conv_nth)
  from assms(1) have "map addr (heap s) = [0..<length (heap s)]" by (simp add: wf_def)
  then have "map addr (heap s) ! i = [0..<length (heap s)] ! i" by simp
  with i have "addr u = i" by simp
  with i show ?thesis by simp
qed

lemma wf_addr_inj:
  assumes "wf s" "u \<in> set (heap s)" "v \<in> set (heap s)" "addr u = addr v"
  shows "u = v"
  using wf_heap_nth [OF assms(1,2)] wf_heap_nth [OF assms(1,3)] assms(4) by metis

lemma lookup_key_inj:
  assumes "wf s" "fst ` set cs \<subseteq> set (heap s)" "fst ` set cs' \<subseteq> set (heap s)"
    "lookup_key cs sc = lookup_key cs' sc'"
  shows "cs = cs' \<and> sc = sc'"
proof -
  from assms(4) have m: "map (\<lambda>(u, p). (addr u, p)) cs = map (\<lambda>(u, p). (addr u, p)) cs'"
    and "sc = sc'" by (simp_all add: lookup_key_def)
  from m assms(2,3) have "cs = cs'"
  proof (induction cs arbitrary: cs')
    case Nil
    then show ?case by simp
  next
    case (Cons c cs)
    then obtain c' cs'' where cs': "cs' = c' # cs''" by (cases cs') auto
    with Cons.prems have "addr (fst c) = addr (fst c')" "snd c = snd c'"
      by (auto simp: case_prod_beta)
    moreover from Cons.prems cs' have "fst c \<in> set (heap s)" "fst c' \<in> set (heap s)" by auto
    ultimately have "c = c'" using wf_addr_inj [OF assms(1)] by (metis prod.expand)
    moreover have "cs = cs''" using Cons.IH [of cs''] Cons.prems cs' by auto
    ultimately show ?case using cs' by simp
  qed
  with \<open>sc = sc'\<close> show ?thesis by simp
qed

lemma wf_complex_lookup:
  assumes "wf s" "map_of (complex_units s) k = Some c"
  shows "c \<in> set (heap s) \<and> is_ComplexUnit c \<and> lookup_key (components c) (explicit_scale c) = k"
proof -
  from assms(2) have "(k, c) \<in> set (complex_units s)" by (rule map_of_SomeD)
  moreover from assms(1) have "list_all (\<lambda>(k, c). c \<in> set (heap s) \<and> is_ComplexUnit c
          \<and> lookup_key (components c) (explicit_scale c) = k) (complex_units s)"
    by (simp add: wf_def)
  ultimately show ?thesis by (auto simp: list_all_iff)
qed

lemma wf_heap_object:
  assumes "wf s" "u \<in> set (heap s)"
  shows "wf_object (heap s) u"
  using assms by (auto simp: wf_def list_all_iff)

lemma wf_components_in_heap:
  assumes "wf s" "u \<in> set (heap s)"
  shows "fst ` set (components u) \<subseteq> set (heap s)"
  using wf_heap_object [OF assms] by (cases u) (auto simp: wf_object_def list_all_iff)

lemma wf_components_multiplicative:
  assumes "wf s" "u \<in> set (heap s)"
  shows "list_all (\<lambda>(c, p). is_multiplicative c) (components u)"
  using wf_heap_object [OF assms] by (simp add: wf_object_def)

lemma wf_subunits_in_heap:
  assumes "wf s" "u \<in> set (heap s)"
  shows "set (subunits u) \<subseteq> set (heap s)"
  using wf_heap_object [OF assms] by (auto simp: wf_object_def list_all_iff)

lemma wf_derived_lookup:
  assumes "wf s" "map_of (derived_units s) k = Some u"
  shows "u \<in> set (heap s) \<and> diff_key_ok k u"
proof -
  from assms(2) have "(k, u) \<in> set (derived_units s)" by (rule map_of_SomeD)
  with assms(1) show ?thesis by (auto simp: wf_def list_all_iff)
qed

text \<open>
  \<^verbatim>\<open>ComplexUnit.__new__\<close> in terms of the components and the scale that it derives from its
  argument.
\<close>

lemma ComplexUnit_new_unfold:
  "ComplexUnit_new s arg nm =
     (case map_of (complex_units s) (lookup_key (arg_components arg) (arg_scale arg)) of
        Some d \<Rightarrow> Inr (s, d)
      | None \<Rightarrow>
          if \<not> list_all (\<lambda>(u, p). is_multiplicative u) (arg_components arg) then Inl AssertionError
          else if given_name nm \<noteq> None then Inl AttributeError
          else Inr (s\<lparr>complex_units :=
                        (lookup_key (arg_components arg) (arg_scale arg),
                         ComplexUnit (length (heap s)) None (arg_components arg)
                           (arg_scale arg)) # complex_units s,
                      heap := heap s @ [ComplexUnit (length (heap s)) None
                           (arg_components arg) (arg_scale arg)]\<rparr>,
                    ComplexUnit (length (heap s)) None (arg_components arg)
                      (arg_scale arg)))"
  by (cases arg) (auto simp: ComplexUnit_new_def Let_def split: option.splits)

text \<open>
  In a well-formed unit system, the unit that is interned under the key of some components
  of the heap has exactly these components.
\<close>

lemma wf_complex_hit:
  assumes "wf s" "fst ` set cs \<subseteq> set (heap s)"
    "map_of (complex_units s) (lookup_key cs sc) = Some c"
  shows "c \<in> set (heap s) \<and> is_ComplexUnit c \<and> components c = cs \<and> explicit_scale c = sc"
proof -
  from wf_complex_lookup [OF assms(1,3)]
  have c: "c \<in> set (heap s)" "is_ComplexUnit c"
    "lookup_key (components c) (explicit_scale c) = lookup_key cs sc"
    by simp_all
  from lookup_key_inj [OF assms(1) wf_components_in_heap [OF assms(1) c(1)] assms(2) c(3)]
  show ?thesis using c by simp
qed

text \<open>
  What \<^verbatim>\<open>ComplexUnit(components=cs)\<close> returns in a well-formed unit system, for components that
  are multiplicative objects of the heap: the unit interned under the key of \<open>cs\<close> when
  there is one, and otherwise a new unit, which it interns under that key.
\<close>

lemma ComplexUnit_new_Components:
  assumes "wf s" "fst ` set cs \<subseteq> set (heap s)" "list_all (\<lambda>(c, p). is_multiplicative c) cs"
  shows "\<exists>s' c. ComplexUnit_new s (Components cs) None = Inr (s', c) \<and> is_ComplexUnit c
     \<and> components c = cs \<and> explicit_scale c = None
     \<and> (map_of (complex_units s) (lookup_key cs None) = None \<longrightarrow>
          c = ComplexUnit (length (heap s)) None cs None
          \<and> s' = s\<lparr>complex_units := (lookup_key cs None, c) # complex_units s,
                   heap := heap s @ [c]\<rparr>)
     \<and> (map_of (complex_units s) (lookup_key cs None) \<noteq> None \<longrightarrow>
          s' = s \<and> c \<in> set (heap s) \<and> map_of (complex_units s) (lookup_key cs None) = Some c)"
proof (cases "map_of (complex_units s) (lookup_key cs None)")
  case None
  with assms(3) show ?thesis by (simp add: ComplexUnit_new_unfold)
next
  case (Some c)
  from wf_complex_hit [OF assms(1,2) Some] Some show ?thesis
    by (simp add: ComplexUnit_new_unfold)
qed

subsection \<open>The constructors preserve well-formedness\<close>

lemma wf_object_mono:
  assumes "wf_object h u" "set h \<subseteq> set h'"
  shows "wf_object h' u"
  using assms by (auto simp: wf_object_def list_all_iff)

lemma wf_alloc:
  assumes "wf s"
    and h: "heap s' = heap s @ [n]"
    and n: "addr n = length (heap s)" "wf_object (heap s) n"
    and c: "complex_units s' = cu @ complex_units s"
      "list_all (\<lambda>(k, c). c \<in> set (heap s @ [n]) \<and> is_ComplexUnit c
          \<and> lookup_key (components c) (explicit_scale c) = k) cu"
    and d: "list_all (\<lambda>(k, u). u \<in> set (heap s @ [n]) \<and> diff_key_ok k u) (derived_units s')"
    and p: "primary_units s' = pu @ primary_units s"
      "list_all (\<lambda>(d, p). p \<in> set (heap s @ [n]) \<and> is_PrimaryUnit p \<and> dimension p = Inr d) pu"
  shows "wf s'"
proof -
  have sub: "set (heap s) \<subseteq> set (heap s @ [n])" by auto
  have "list_all (wf_object (heap s @ [n])) (heap s @ [n])"
    using assms(1) n(2) wf_object_mono [OF _ sub] by (auto simp: wf_def list_all_iff)
  moreover have "map addr (heap s @ [n]) = [0..<length (heap s @ [n])]"
    using assms(1) n(1) by (simp add: wf_def)
  ultimately show ?thesis
    using assms(1) h c d p unfolding wf_def by (auto simp: list_all_iff)
qed

lemma wf_derived_mono:
  assumes "wf s"
  shows "list_all (\<lambda>(k, u). (u = n \<or> u \<in> set (heap s)) \<and> diff_key_ok k u) (derived_units s)"
  using assms by (auto simp: wf_def list_all_iff)

lemma PrimaryUnit_new_wf:
  assumes "wf s" "PrimaryUnit_new s nm d = Inr (s', u)"
  shows "wf s' \<and> u \<in> set (heap s') \<and> set (heap s) \<subseteq> set (heap s')
    \<and> conversion_factors s' = conversion_factors s"
proof (cases "map_of (primary_units s) d")
  case None
  let ?n = "PrimaryUnit (length (heap s)) (given_name nm) d"
  let ?s = "s\<lparr>primary_units := (d, ?n) # primary_units s, heap := heap s @ [?n]\<rparr>"
  have "wf ?s"
    by (rule wf_alloc [OF assms(1), where n = ?n and cu = "[]" and pu = "[(d, ?n)]"])
      (simp_all add: wf_object_def wf_derived_mono [OF assms(1)])
  with None assms(2) show ?thesis by (auto simp: PrimaryUnit_new_def Let_def)
next
  case (Some p)
  then have "(d, p) \<in> set (primary_units s)" by (rule map_of_SomeD)
  with assms(1) have "p \<in> set (heap s)" by (auto simp: wf_def list_all_iff)
  with Some assms show ?thesis by (auto simp: PrimaryUnit_new_def split: if_splits)
qed

lemma table_replace_all:
  assumes "table_replace t k v = Inr (Some t')" "list_all (\<lambda>(k', u). R k' u) t"
    "\<And>k'. same_tuple k' k = Inr True \<Longrightarrow> R k' v"
  shows "list_all (\<lambda>(k', u). R k' u) t'"
  using assms(1,2)
proof (induction t arbitrary: t')
  case Nil
  then show ?case by simp
next
  case (Cons a t)
  obtain k' v' where a: "a = (k', v')" by (cases a)
  show ?case
  proof (cases "same_tuple k' k")
    case (Inl e)
    with Cons.prems(1) a show ?thesis by simp
  next
    case (Inr b)
    show ?thesis
    proof (cases b)
      case True
      with Inr Cons.prems a assms(3) [of k'] show ?thesis by auto
    next
      case False
      with Inr Cons.prems(1) a obtain t'' where t'': "table_replace t k v = Inr (Some t'')"
        "t' = (k', v') # t''"
        by (auto split: sum.splits option.splits)
      from Cons.IH [OF t''(1)] Cons.prems(2) a t''(2) show ?thesis by simp
    qed
  qed
qed

lemma same_tuple_object_key:
  assumes "same_tuple k' (KObj u # ps) = Inr True"
  shows "diff_key_ok k' v"
proof -
  from assms have "list_all2 part_hash_equal k' (KObj u # ps)"
    by (auto simp: same_tuple_def split: if_splits)
  then obtain p' ps' where k': "k' = p' # ps'" "part_hash_equal p' (KObj u)"
    by (auto simp: list_all2_Cons2)
  from k'(2) obtain u' where "p' = KObj u'" by (cases p') auto
  with k'(1) show ?thesis by simp
qed

lemma bind_err_Inr:
  "bind_err m f = Inr y \<Longrightarrow> \<exists>x. m = Inr x \<and> f x = Inr y"
  by (cases m) auto


lemma DerivedUnit_new_wf:
  assumes "wf (s :: 'd::ab_group_add UnitSystem)" "arg_unit pu \<in> set (heap s)" "DerivedUnit_new s pu r nm = Inr (s', u)"
  shows "wf s' \<and> u \<in> set (heap s') \<and> set (heap s) \<subseteq> set (heap s')
    \<and> conversion_factors s' = conversion_factors s"
proof -
  obtain pu1 r1 where 1: "(case pu of A_Quantity q \<Rightarrow> (qunit q, qvalue q) | A_Unit u \<Rightarrow> (u, r)) = (pu1, r1)"
    by (cases pu) auto
  then have pu1: "pu1 \<in> set (heap s)" using assms(2) by (cases pu) auto
  let ?flat = "(case pu1 of
      DerivedUnit a nm pu r \<Rightarrow> bind_err (dec_mul r1 r) (\<lambda>ratio2. Inr (pu, ratio2))
    | _ \<Rightarrow> Inr (pu1, r1)) :: 'd error + 'd Unit \<times> rat"
  let ?rest = "\<lambda>(primary_unit2, ratio2).
      case map_of (derived_units s) [KId (addr primary_unit2), KDec ratio2] of
        Some d \<Rightarrow> Inr (s, d)
      | None \<Rightarrow>
          (if given_name nm \<noteq> None then Inl AttributeError
           else
             (let n = DerivedUnit (length (heap s)) None primary_unit2 ratio2
              in bind_err
                   (table_set (derived_units s) [KObj primary_unit2, KDec ratio2] n)
                   (\<lambda>t. Inr (s\<lparr>derived_units := t, heap := heap s @ [n]\<rparr>, n))))"
  from assms(3) 1 have "bind_err ?flat ?rest = Inr (s', u)"
    by (simp add: DerivedUnit_new_def)
  from bind_err_Inr [OF this] obtain x where x: "?flat = Inr x \<and> ?rest x = Inr (s', u)" ..
  obtain pu2 r2 where "x = (pu2, r2)" by (cases x)
  with x have 2: "?flat = Inr (pu2, r2)" and 3: "?rest (pu2, r2) = Inr (s', u)"
    by simp_all
  have pu2: "pu2 \<in> set (heap s)"
  proof (cases pu1)
    case (DerivedUnit a nm' p r')
    with 2 have "pu2 = p" by (auto dest!: bind_err_Inr)
    with DerivedUnit wf_subunits_in_heap [OF assms(1) pu1] show ?thesis by simp
  qed (use 2 pu1 in auto)
  show ?thesis
  proof (cases "map_of (derived_units s) [KId (addr pu2), KDec r2]")
    case None
    let ?n = "DerivedUnit (length (heap s)) None pu2 r2"
    from 3 None obtain t where t: "table_set (derived_units s) [KObj pu2, KDec r2] ?n = Inr t"
      and s': "s' = s\<lparr>derived_units := t, heap := heap s @ [?n]\<rparr>" and u: "u = ?n"
      by (auto simp: Let_def split: if_splits dest!: bind_err_Inr)
    from t obtain rep where rep: "table_replace (derived_units s) [KObj pu2, KDec r2] ?n = Inr rep"
      and t': "t = (case rep of None \<Rightarrow> ([KObj pu2, KDec r2], ?n) # derived_units s | Some t' \<Rightarrow> t')"
      by (auto simp: table_set_def dest!: bind_err_Inr)
    have d: "list_all (\<lambda>(k, u). (u = ?n \<or> u \<in> set (heap s)) \<and> diff_key_ok k u) t"
    proof (cases rep)
      case None
      with t' wf_derived_mono [OF assms(1), of ?n] show ?thesis by simp
    next
      case (Some t'')
      have "list_all (\<lambda>(k, u). (u = ?n \<or> u \<in> set (heap s)) \<and> diff_key_ok k u) t''"
        by (rule table_replace_all [OF rep [unfolded Some] wf_derived_mono [OF assms(1), of ?n]])
          (simp add: same_tuple_object_key)
      with t' Some show ?thesis by simp
    qed
    have "wf s'"
      by (rule wf_alloc [OF assms(1), where n = ?n and cu = "[]" and pu = "[]"])
        (simp_all add: s' wf_object_def pu2 d)
    with s' u show ?thesis by auto
  next
    case (Some d)
    from wf_derived_lookup [OF assms(1) Some] Some assms(1) 3 show ?thesis
      by auto
  qed
qed

lemma table_find_value:
  assumes "table_find t k = Inr (Some v)"
  shows "\<exists>k'. (k', v) \<in> set t"
  using assms
proof (induction t)
  case Nil
  then show ?case by simp
next
  case (Cons a t)
  obtain k' v' where a: "a = (k', v')" by (cases a)
  show ?case
  proof (cases "same_tuple k' k")
    case (Inl e)
    with Cons.prems a show ?thesis by simp
  next
    case (Inr b)
    with Cons a show ?thesis by (cases b) auto
  qed
qed

lemma OffsetDerivedUnit_new_wf:
  assumes "wf (s :: 'd::ab_group_add UnitSystem)" "pu \<in> set (heap s)" "OffsetDerivedUnit_new s pu r off nm = Inr (s', u)"
  shows "wf s' \<and> u \<in> set (heap s') \<and> set (heap s) \<subseteq> set (heap s')
    \<and> conversion_factors s' = conversion_factors s"
proof -
  let ?flat = "(case pu of
      DerivedUnit a nm p r0 \<Rightarrow>
        bind_err (ratio p) (\<lambda>r'. bind_err (dec_mul r r') (\<lambda>ratio1. Inr (p, ratio1)))
    | _ \<Rightarrow> Inr (pu, r)) :: 'd error + 'd Unit \<times> rat"
  let ?rest = "\<lambda>(primary_unit1, ratio1).
      case table_get (derived_units s) [KObj primary_unit1, KDec ratio1, KDec off] of
        Inl e \<Rightarrow> Inl e
      | Inr (Some d) \<Rightarrow> Inr (s, d)
      | Inr None \<Rightarrow>
          (if given_name nm \<noteq> None then Inl AttributeError
           else
             (let n = OffsetDerivedUnit (length (heap s)) None primary_unit1 ratio1 off
              in Inr (s\<lparr>derived_units :=
                          ([KId (addr primary_unit1), KDec ratio1, KDec off], n)
                            # derived_units s,
                        heap := heap s @ [n]\<rparr>, n)))"
  from assms(3) have "bind_err ?flat ?rest = Inr (s', u)"
    by (simp add: OffsetDerivedUnit_new_def)
  from bind_err_Inr [OF this] obtain x where x: "?flat = Inr x \<and> ?rest x = Inr (s', u)" ..
  obtain pu1 r1 where "x = (pu1, r1)" by (cases x)
  with x have 1: "?flat = Inr (pu1, r1)" and 2: "?rest (pu1, r1) = Inr (s', u)"
    by simp_all
  have pu1: "pu1 \<in> set (heap s)"
  proof (cases pu)
    case (DerivedUnit a nm' p r')
    with 1 have "pu1 = p" by (auto dest!: bind_err_Inr)
    with DerivedUnit wf_subunits_in_heap [OF assms(1,2)] show ?thesis by simp
  qed (use 1 assms(2) in auto)
  from 2 obtain found where f: "table_get (derived_units s) [KObj pu1, KDec r1, KDec off] = Inr found"
    by (auto split: sum.splits)
  show ?thesis
  proof (cases found)
    case None
    let ?n = "OffsetDerivedUnit (length (heap s)) None pu1 r1 off"
    let ?s = "s\<lparr>derived_units := ([KId (addr pu1), KDec r1, KDec off], ?n) # derived_units s,
      heap := heap s @ [?n]\<rparr>"
    have "wf ?s"
      by (rule wf_alloc [OF assms(1), where n = ?n and cu = "[]" and pu = "[]"])
        (simp_all add: wf_object_def pu1 wf_derived_mono [OF assms(1)])
    with None 2 f show ?thesis by (auto simp: Let_def split: if_splits)
  next
    case (Some d)
    from f Some have "table_find (derived_units s) [KObj pu1, KDec r1, KDec off] = Inr (Some d)"
      by (auto simp: table_get_def dest!: bind_err_Inr)
    from table_find_value [OF this] assms(1) have "d \<in> set (heap s)"
      by (auto simp: wf_def list_all_iff)
    with Some 2 f assms(1) show ?thesis by auto
  qed
qed

lemma DiffDerivedUnit_new_wf:
  assumes "wf s" "ou \<in> set (heap s)" "DiffDerivedUnit_new s ou nm = Inr (s', u)"
  shows "wf s' \<and> u \<in> set (heap s') \<and> set (heap s) \<subseteq> set (heap s')
    \<and> conversion_factors s' = conversion_factors s \<and> is_DiffDerivedUnit u
    \<and> subunits u = [ou]"
proof -
  from assms(3) have ou: "is_OffsetDerivedUnit ou"
    by (auto simp: DiffDerivedUnit_new_def split: if_splits dest!: bind_err_Inr)
  show ?thesis
  proof (cases "map_of (derived_units s) [KId (addr ou), KStr ''diff'']")
    case None
    let ?n = "DiffDerivedUnit (length (heap s)) None ou"
    let ?s = "s\<lparr>derived_units := ([KId (addr ou), KStr ''diff''], ?n) # derived_units s,
      heap := heap s @ [?n]\<rparr>"
    have "wf ?s"
      by (rule wf_alloc [OF assms(1), where n = ?n and cu = "[]" and pu = "[]"])
        (simp_all add: wf_object_def assms(2) ou wf_derived_mono [OF assms(1)])
    with None assms(3) ou show ?thesis
      by (auto simp: DiffDerivedUnit_new_def Let_def split: if_splits)
  next
    case (Some d)
    from wf_derived_lookup [OF assms(1) Some]
    have d: "d \<in> set (heap s)" "is_DiffDerivedUnit d" "map addr (subunits d) = [addr ou]"
      by simp_all
    from d(3) obtain x where x: "subunits d = [x]" "addr x = addr ou" by auto
    from wf_subunits_in_heap [OF assms(1) d(1)] x(1) have "x \<in> set (heap s)" by simp
    from wf_addr_inj [OF assms(1) this assms(2) x(2)] x(1) have "subunits d = [ou]" by simp
    with d Some assms(1,3) ou show ?thesis
      by (auto simp: DiffDerivedUnit_new_def Let_def)
  qed
qed

lemma DiffDerivedUnit_new_succeeds:
  assumes "is_OffsetDerivedUnit ou"
  shows "\<exists>s' u. DiffDerivedUnit_new s ou None = Inr (s', u)"
  using assms by (auto simp: DiffDerivedUnit_new_def Let_def split: option.splits)

lemma to_components_in_heap:
  assumes "wf s" "u \<in> set (heap s)"
  shows "fst ` set (to_components u p) \<subseteq> set (heap s)"
  using assms wf_components_in_heap [OF assms] by (cases u) (auto split: if_splits)

lemma ComplexUnit_new_wf:
  assumes "wf s" "fst ` set (arg_components arg) \<subseteq> set (heap s)"
    "ComplexUnit_new s arg nm = Inr (s', u)"
  shows "wf s' \<and> u \<in> set (heap s') \<and> set (heap s) \<subseteq> set (heap s')
    \<and> conversion_factors s' = conversion_factors s \<and> is_ComplexUnit u"
proof (cases "map_of (complex_units s) (lookup_key (arg_components arg) (arg_scale arg))")
  case None
  let ?n = "ComplexUnit (length (heap s)) None (arg_components arg) (arg_scale arg)"
  let ?s = "s\<lparr>complex_units := (lookup_key (arg_components arg) (arg_scale arg), ?n) # complex_units s,
      heap := heap s @ [?n]\<rparr>"
  from None assms(3) have m: "list_all (\<lambda>(u, p). is_multiplicative u) (arg_components arg)"
    by (auto simp: ComplexUnit_new_unfold split: if_splits)
  have "wf ?s"
    by (rule wf_alloc [OF assms(1), where n = ?n and pu = "[]"
          and cu = "[(lookup_key (arg_components arg) (arg_scale arg), ?n)]"])
      (use assms(2) m wf_derived_mono [OF assms(1), of ?n] in \<open>auto simp: wf_object_def list_all_iff\<close>)
  with None assms(3) m show ?thesis by (auto simp: ComplexUnit_new_unfold split: if_splits)
next
  case (Some d)
  from wf_complex_lookup [OF assms(1) Some] Some assms(1,3) show ?thesis
    by (auto simp: ComplexUnit_new_unfold)
qed

lemma wf_empty_system: "wf empty_system"
  by (simp add: wf_def empty_system_def)

lemma ComplexUnit_new_not_multiplicative:
  assumes "wf s" "fst ` set (arg_components arg) \<subseteq> set (heap s)"
    "\<not> list_all (\<lambda>(u, p). is_multiplicative u) (arg_components arg)"
  shows "ComplexUnit_new s arg nm = Inl AssertionError"
proof (cases "map_of (complex_units s) (lookup_key (arg_components arg) (arg_scale arg))")
  case None
  with assms(3) show ?thesis by (simp add: ComplexUnit_new_unfold)
next
  case (Some c)
  from wf_complex_hit [OF assms(1,2) Some] wf_components_multiplicative [OF assms(1), of c] assms(3)
  show ?thesis by simp
qed

subsection \<open>Examples, continued\<close>

lemmas example_defs = sys_m_def metre_def sys_km_def kilometre_def sys_k_def kelvin_def
  sys_c_def celsius_def sys_cd_def celsius_diff_def sys_foo_def foo_def sys_5m_def five_metres_def
  length_dim_def temperature_dim_def kelvin_1_def kelvin_per_metre_def sys_mk_def
  metre_kelvin_per_metre_def sys_mk2_def metre_squared_def sys_5m2_def

lemma wf_sys_km: "wf sys_km"
  by (simp add: wf_def wf_object_def example_defs)

lemma wf_sys_c: "wf sys_c"
  by (simp add: wf_def wf_object_def example_defs)

lemma wf_sys_foo: "wf sys_foo"
  by (simp add: wf_def wf_object_def example_defs lookup_key_def)


lemma kelvin_new:
  "PrimaryUnit_new empty_system (Some ''kelvin'') temperature_dim = Inr (sys_k, kelvin)"
  by (simp add: PrimaryUnit_new_def empty_system_def example_defs Let_def)

lemma celsius_new:
  "OffsetDerivedUnit_new sys_k kelvin 1 (27315 / 100) None = Inr (sys_c, celsius)"
  by (simp add: OffsetDerivedUnit_new_def table_get_def hash_tuple_def example_defs Let_def)

lemma celsius_diff_new:
  "DiffDerivedUnit_new sys_c celsius None = Inr (sys_cd, celsius_diff)"
  by (simp add: DiffDerivedUnit_new_def example_defs Let_def)

lemma five_metres_new:
  "ComplexUnit_new sys_m (Of_Quantity (Quantity 5 metre)) None = Inr (sys_5m, five_metres)"
  by (simp add: ComplexUnit_new_def example_defs Let_def lookup_key_def)

subsection \<open>Powers of a derived unit\<close>

text \<open>
  C6: for every \<^verbatim>\<open>DerivedUnit\<close> \<open>d\<close> of a well-formed unit system and every power \<open>n\<close>,
  \<^verbatim>\<open>d ** n\<close> returns a \<^verbatim>\<open>ComplexUnit\<close> whose components are the single pair \<open>(d, 2)\<close>, whatever
  \<open>n\<close> is. The same holds for a \<^verbatim>\<open>DiffDerivedUnit\<close>, which inherits \<^verbatim>\<open>__pow__\<close>. (An
  \<^verbatim>\<open>OffsetDerivedUnit\<close> inherits it too, but is not multiplicative: the construction fails,
  see \<open>OffsetDerivedUnit_pow\<close>.)
\<close>

theorem DerivedUnit_pow:
  assumes "wf s" "d \<in> set (heap s)" "is_DerivedUnit d \<or> is_DiffDerivedUnit d"
  shows "\<exists>s' c. unit_pow s d n = Inr (s', c) \<and> is_ComplexUnit c \<and> components c = [(d, 2)]"
proof -
  from assms(3) have p: "unit_pow s d n = ComplexUnit_new s (Components [(d, 2)]) None"
    and m: "is_multiplicative d"
    by (cases d; simp)+
  from ComplexUnit_new_Components [OF assms(1), of "[(d, 2)]"] assms(2) m
  show ?thesis unfolding p by auto
qed

theorem DerivedUnit_pow_witness:
  "wf sys_km \<and> kilometre \<in> set (heap sys_km) \<and> is_DerivedUnit kilometre
   \<and> (\<exists>s' c. unit_pow sys_km kilometre 3 = Inr (s', c) \<and> is_ComplexUnit c
         \<and> components c = [(kilometre, 2)])"
proof -
  have h: "kilometre \<in> set (heap sys_km)" "is_DerivedUnit kilometre"
    by (simp_all add: example_defs)
  from DerivedUnit_pow [OF wf_sys_km h(1), of 3] h wf_sys_km show ?thesis by simp
qed

lemma OffsetDerivedUnit_pow:
  assumes "wf s" "d \<in> set (heap s)" "is_OffsetDerivedUnit d"
  shows "unit_pow s d n = Inl AssertionError"
proof -
  from assms(3) have p: "unit_pow s d n = ComplexUnit_new s (Components [(d, 2)]) None"
    and m: "\<not> is_multiplicative d"
    by (cases d; simp)+
  show ?thesis unfolding p
    by (rule ComplexUnit_new_not_multiplicative [OF assms(1)]) (use assms(2) m in auto)
qed

subsection \<open>Non-multiplicative components\<close>

text \<open>
  C8: in a well-formed unit system, constructing a \<^verbatim>\<open>ComplexUnit\<close> whose components (given
  as a tuple or through a \<^verbatim>\<open>Quantity\<close>) include an \<^verbatim>\<open>OffsetDerivedUnit\<close> \<open>ou\<close> fails with the
  assertion of \<^verbatim>\<open>ComplexUnit.__new__\<close>, whatever name is passed, whereas
  \<^verbatim>\<open>DiffDerivedUnit(ou)\<close> returns the diff unit of \<open>ou\<close>, and \<^verbatim>\<open>ComplexUnit(components)\<close>
  with components made of it and of any further multiplicative units succeeds and returns a
  \<^verbatim>\<open>ComplexUnit\<close> with exactly these components. (No name is passed to the two constructors
  that succeed: with a name they raise \<^verbatim>\<open>AttributeError\<close> unless the unit is interned
  already, see \<open>ComplexUnit_new_named\<close>.)
\<close>

theorem ComplexUnit_new_offset_diff:
  assumes "wf s" "ou \<in> set (heap s)" "is_OffsetDerivedUnit ou"
  shows "(\<forall>arg nm. fst ` set (arg_components arg) \<subseteq> set (heap s)
            \<and> ou \<in> fst ` set (arg_components arg)
          \<longrightarrow> ComplexUnit_new s arg nm = Inl AssertionError)
    \<and> (\<exists>s1 d. DiffDerivedUnit_new s ou None = Inr (s1, d) \<and> is_DiffDerivedUnit d
          \<and> subunits d = [ou]
          \<and> (\<forall>cs p. fst ` set cs \<subseteq> set (heap s1)
                  \<and> list_all (\<lambda>(u, p). is_multiplicative u) cs
               \<longrightarrow> (\<exists>s2 c. ComplexUnit_new s1 (Components ((d, p) # cs)) None = Inr (s2, c)
                     \<and> is_ComplexUnit c \<and> components c = (d, p) # cs)))"
proof (intro conjI allI impI)
  fix arg :: "'a components_arg" and nm
  assume a: "fst ` set (arg_components arg) \<subseteq> set (heap s) \<and> ou \<in> fst ` set (arg_components arg)"
  from assms(3) have "\<not> is_multiplicative ou" by (cases ou) simp_all
  with a have "\<not> list_all (\<lambda>(u, p). is_multiplicative u) (arg_components arg)"
    by (auto simp: list_all_iff)
  with a show "ComplexUnit_new s arg nm = Inl AssertionError"
    using ComplexUnit_new_not_multiplicative [OF assms(1)] by blast
next
  from DiffDerivedUnit_new_succeeds [OF assms(3)] obtain s1 d
    where d: "DiffDerivedUnit_new s ou None = Inr (s1, d)" by blast
  from DiffDerivedUnit_new_wf [OF assms(1,2) d]
  have wf1: "wf s1" and dh: "d \<in> set (heap s1)" and dd: "is_DiffDerivedUnit d"
    and ds: "subunits d = [ou]" by simp_all
  from dd have dm: "is_multiplicative d" by (cases d) simp_all
  have "\<exists>s2 c. ComplexUnit_new s1 (Components ((d, p) # cs)) None = Inr (s2, c)
            \<and> is_ComplexUnit c \<and> components c = (d, p) # cs"
    if "fst ` set cs \<subseteq> set (heap s1) \<and> list_all (\<lambda>(u, p). is_multiplicative u) cs"
    for cs p
    using ComplexUnit_new_Components [OF wf1, of "(d, p) # cs"] that dh dm by auto
  with d dd ds show "\<exists>s1 d. DiffDerivedUnit_new s ou None = Inr (s1, d) \<and> is_DiffDerivedUnit d
          \<and> subunits d = [ou]
          \<and> (\<forall>cs p. fst ` set cs \<subseteq> set (heap s1)
                  \<and> list_all (\<lambda>(u, p). is_multiplicative u) cs
               \<longrightarrow> (\<exists>s2 c. ComplexUnit_new s1 (Components ((d, p) # cs)) None = Inr (s2, c)
                     \<and> is_ComplexUnit c \<and> components c = (d, p) # cs))"
    by blast
qed

theorem ComplexUnit_new_offset_diff_witness:
  "wf sys_c \<and> celsius \<in> set (heap sys_c) \<and> is_OffsetDerivedUnit celsius
   \<and> ComplexUnit_new sys_c (Components [(celsius, 1)]) None = Inl AssertionError
   \<and> (\<exists>s1 d. DiffDerivedUnit_new sys_c celsius None = Inr (s1, d) \<and> subunits d = [celsius]
        \<and> (\<exists>s2 c. ComplexUnit_new s1 (Components [(d, 1)]) None = Inr (s2, c)
              \<and> components c = [(d, 1)]))"
proof -
  have h: "celsius \<in> set (heap sys_c)" "is_OffsetDerivedUnit celsius"
    by (simp_all add: example_defs)
  have a: "fst ` set (arg_components (Components [(celsius, 1)])) \<subseteq> set (heap sys_c)
     \<and> celsius \<in> fst ` set (arg_components (Components [(celsius, 1::int)]))"
    by (simp add: example_defs)
  from ComplexUnit_new_offset_diff [OF wf_sys_c h]
  have 1: "\<forall>arg nm. fst ` set (arg_components arg) \<subseteq> set (heap sys_c)
            \<and> celsius \<in> fst ` set (arg_components arg)
          \<longrightarrow> ComplexUnit_new sys_c arg nm = Inl AssertionError"
    and 2: "\<exists>s1 d. DiffDerivedUnit_new sys_c celsius None = Inr (s1, d) \<and> is_DiffDerivedUnit d
          \<and> subunits d = [celsius]
          \<and> (\<forall>cs p. fst ` set cs \<subseteq> set (heap s1)
                  \<and> list_all (\<lambda>(u, p). is_multiplicative u) cs
               \<longrightarrow> (\<exists>s2 c. ComplexUnit_new s1 (Components ((d, p) # cs)) None = Inr (s2, c)
                     \<and> is_ComplexUnit c \<and> components c = (d, p) # cs))"
    by blast+
  from 1 a have 3: "ComplexUnit_new sys_c (Components [(celsius, 1)]) None = Inl AssertionError"
    by blast
  from 2 obtain s1 d where d: "DiffDerivedUnit_new sys_c celsius None = Inr (s1, d)"
    "subunits d = [celsius]"
    and c: "\<forall>cs p. fst ` set cs \<subseteq> set (heap s1)
                  \<and> list_all (\<lambda>(u, p). is_multiplicative u) cs
               \<longrightarrow> (\<exists>s2 c. ComplexUnit_new s1 (Components ((d, p) # cs)) None = Inr (s2, c)
                     \<and> is_ComplexUnit c \<and> components c = (d, p) # cs)"
    by blast
  from c [rule_format, of "[]" 1]
  have "\<exists>s2 c. ComplexUnit_new s1 (Components [(d, 1)]) None = Inr (s2, c)
              \<and> components c = [(d, 1)]" by auto
  with d 3 h wf_sys_c show ?thesis by blast
qed

text \<open>
  With a non-empty name and no interned unit, \<^verbatim>\<open>ComplexUnit.__new__\<close> and
  \<^verbatim>\<open>DiffDerivedUnit.__new__\<close> raise \<^verbatim>\<open>AttributeError\<close> and register nothing.
\<close>

lemma ComplexUnit_new_named:
  "ComplexUnit_new sys_m (Components [(metre, 1)]) (Some ''foo'') = Inl AttributeError"
  "DiffDerivedUnit_new sys_c celsius (Some ''celsius_diff'') = Inl AttributeError"
  by (simp_all add: ComplexUnit_new_def DiffDerivedUnit_new_def example_defs lookup_key_def)

subsection \<open>Powers of a composite unit\<close>





subsection \<open>Offset units: conversion to and from the primary unit\<close>

text \<open>
  C5, as amended: for a \<^verbatim>\<open>PrimaryUnit\<close> \<open>p\<close>, an \<^verbatim>\<open>OffsetDerivedUnit\<close> \<open>c\<close> on \<open>p\<close> with a ratio
  \<open>r \<noteq> 0\<close> and an offset \<open>off\<close>, and every Decimal value \<open>v\<close> such that \<open>v\<close>, \<open>v / r\<close> and
  \<open>v / r - off\<close> are Decimals that the context does not round (they have at most 28
  significant digits), converting \<open>v\<close> from \<open>p\<close> to \<open>c\<close> gives \<open>v / r - off\<close>, and converting
  that from \<open>c\<close> back to \<open>p\<close> gives \<open>v\<close> again. With ratio 1 and offset 273.15 (the
  witness), the Decimal 0 converts from the offset unit to 273.15 in the primary unit, and
  273.15 converts back to 0.
\<close>

theorem offset_round_trip:
  assumes "r \<noteq> 0" "b \<noteq> a"
    and "round_context v = (Inr v :: 'd::ab_group_add error + rat)"
    and "round_context (v / r) = (Inr (v / r) :: 'd error + rat)"
    and "round_context (v / r - off) = (Inr (v / r - off) :: 'd error + rat)"
  shows "(let p = PrimaryUnit a nm (d :: 'd); c = OffsetDerivedUnit b nm' p r off
         in convert s p (DecN v) c = Some (Inr (s, DecN (v / r - off)))
            \<and> convert s c (DecN (v / r - off)) p = Some (Inr (s, DecN v)))"
proof -
  let ?p = "PrimaryUnit a nm d" and ?c = "OffsetDerivedUnit b nm' (PrimaryUnit a nm d) r off"
  have "do_convert ?p (DecN v) ?c = (Inr (DecN (v / r - off)) :: 'd error + number)"
    using assms by (simp add: dec_div_def dec_sub_def)
  then have 1: "convert s ?p (DecN v) ?c = Some (Inr (s, DecN (v / r - off)))"
    using assms(2) by (subst convert.simps) simp
  have "do_convert ?c (DecN (v / r - off)) ?p = (Inr (DecN v) :: 'd error + number)"
    using assms by (simp add: dec_add_def dec_mul_def)
  then have 2: "convert s ?c (DecN (v / r - off)) ?p = Some (Inr (s, DecN v))"
    using assms(2) by (subst convert.simps) simp
  from 1 2 show ?thesis by (simp add: Let_def)
qed

theorem offset_round_trip_witness:
  "(1::rat) \<noteq> 0 \<and> (1::nat) \<noteq> 0
   \<and> round_context (27315 / 100) = (Inr (27315 / 100) :: (int \<times> int) error + rat)
   \<and> round_context (27315 / 100 / 1) = (Inr (27315 / 100 / 1) :: (int \<times> int) error + rat)
   \<and> round_context (27315 / 100 / 1 - 27315 / 100)
        = (Inr (27315 / 100 / 1 - 27315 / 100) :: (int \<times> int) error + rat)
   \<and> convert sys_c kelvin (DecN (27315 / 100)) celsius = Some (Inr (sys_c, DecN 0))
   \<and> convert sys_c celsius (DecN 0) kelvin = Some (Inr (sys_c, DecN (27315 / 100)))"
  using offset_round_trip [of 1 1 0 "27315 / 100" "27315 / 100" "Some ''kelvin''"
      temperature_dim None sys_c]
  by (simp add: Let_def kelvin_def celsius_def round_context_examples)

text \<open>
  C5 as stated (every numeric value) fails for an \<^verbatim>\<open>int\<close>: \<^verbatim>\<open>type(value)(self.offset)\<close> is
  \<^verbatim>\<open>int(Decimal('273.15'))\<close>, that is 273, so the \<^verbatim>\<open>int\<close> 0 converts from the offset unit
  to 273 in the primary unit, not to 273.15.
\<close>

theorem offset_to_primary_int:
  "convert sys_c celsius (IntN 0) kelvin = Some (Inr (sys_c, IntN 273))"
  by (subst convert.simps) (simp add: kelvin_def celsius_def Let_def truncate_def floor_unique)

text \<open>
  In the other direction, an \<^verbatim>\<open>int\<close> is divided by \<^verbatim>\<open>int(ratio)\<close> with true division, which
  makes a float of it, and \<^verbatim>\<open>int(offset)\<close> is subtracted from that float.
\<close>

lemma primary_to_offset_int:
  "convert sys_c kelvin (IntN 273) celsius
     = Some (Inr (sys_c, FloatN (Float_sub (Int_truediv 273 1) (Float_of_int 273))))"
  by (subst convert.simps)
    (simp add: kelvin_def celsius_def Let_def truncate_def floor_unique float_overflow_def)

text \<open>
  A Decimal quotient that has more than 28 digits is rounded, and the way back does not
  undo the rounding: with ratio 3 and offset 0.5, the Decimal 1 converts to
  -0.1666666666666666666666666667, which converts back to 0.9999999999999999999999999999.
\<close>

lemma offset_round_trip_rounds:
  assumes "b \<noteq> a"
  shows "(let p = PrimaryUnit a nm d; c = OffsetDerivedUnit b nm' p 3 (1 / 2)
          in convert s p (DecN 1) c
               = Some (Inr (s, DecN (- 1666666666666666666666666667
                                        / 10000000000000000000000000000)))
             \<and> convert s c (DecN (- 1666666666666666666666666667
                                        / 10000000000000000000000000000)) p
               = Some (Inr (s, DecN (9999999999999999999999999999
                                        / 10000000000000000000000000000))))"
proof -
  let ?p = "PrimaryUnit a nm d" and ?c = "OffsetDerivedUnit b nm' (PrimaryUnit a nm d) 3 (1 / 2)"
  let ?x = "- 1666666666666666666666666667 / 10000000000000000000000000000 :: rat"
  let ?y = "9999999999999999999999999999 / 10000000000000000000000000000 :: rat"
  have "do_convert ?p (DecN 1) ?c = Inr (DecN ?x)"
    by (simp add: dec_div_def dec_sub_def round_context_third round_context_28_digits)
  then have 1: "convert s ?p (DecN 1) ?c = Some (Inr (s, DecN ?x))"
    using assms by (subst convert.simps) simp
  have "do_convert ?c (DecN ?x) ?p = Inr (DecN ?y)"
    by (simp add: dec_add_def dec_mul_def round_context_28_digits)
  then have 2: "convert s ?c (DecN ?x) ?p = Some (Inr (s, DecN ?y))"
    using assms by (subst convert.simps) simp
  from 1 2 show ?thesis by (simp add: Let_def)
qed

text \<open>With a ratio of 0 the conversion from the primary unit raises.\<close>

lemma primary_to_offset_ratio_0:
  "b \<noteq> a \<Longrightarrow> v \<noteq> 0 \<Longrightarrow>
   convert s (PrimaryUnit a nm d) (DecN v) (OffsetDerivedUnit b nm' (PrimaryUnit a nm d) 0 off)
     = Some (Inl DivisionByZero)"
  by (subst convert.simps) (simp add: dec_div_def)

subsection \<open>Conversion across dimensions\<close>

text \<open>
  Only \<^verbatim>\<open>convert\<close> raises the \<^verbatim>\<open>ValueError\<close> for a missing conversion factor: the errors of
  all other operations are different ones.
\<close>

lemma dim_pow_0 [simp]: "dim_pow d 0 = 0"
  by (simp add: dim_pow_def)

lemma dim_pow_1 [simp]: "dim_pow d 1 = d"
  by (simp add: dim_pow_def)



























lemma wf_sys_mk: "wf sys_mk"
  by (simp add: wf_def wf_object_def example_defs lookup_key_def)

lemma kelvin_per_metre_new:
  "unit_truediv (sys_mk\<lparr>complex_units := [], heap := [metre, kelvin_1]\<rparr>) kelvin_1
     (Unit_operand metre) = Inr (sys_mk, kelvin_per_metre)"
  by (simp add: unit_truediv_def ComplexUnit_new_def add_self_def dict_of_def dict_add_def
      dict_set_def same_key_def lookup_key_def example_defs Let_def)









text \<open>
  C7 as stated also fails for units without a name: a \<^verbatim>\<open>PrimaryUnit\<close> constructed without
  a name has the name \<^verbatim>\<open>None\<close>, \<^verbatim>\<open>str\<close> of it raises \<^verbatim>\<open>TypeError\<close>, and so does the
  formatting of the message of the \<^verbatim>\<open>ValueError\<close>.
\<close>

lemma convert_unnamed:
  "convert (sys_mk\<lparr>conversion_factors := []\<rparr>) (PrimaryUnit 0 None length_dim) v kelvin_1
     = Some (Inl TypeError)"
  by (subst convert.simps)
    (simp add: example_defs conversion_factor_def str_unit_def dim_div_def)

end
